theory Spec2Isabelle
  imports Complex_Main "HOL-Library.Sublist"
begin

section \<open>The training script \<^verbatim>\<open>train.py\<close>\<close>

text \<open>
  A shallow embedding of \<^verbatim>\<open>src/train.py\<close>: the parameter grouper \<^verbatim>\<open>get_params\<close>, the
  polynomial learning-rate scheduler \<^verbatim>\<open>poly_lr_scheduler\<close> and the training loop of
  \<^verbatim>\<open>main\<close>.

  Conventions of the embedding.
  \<^item> Python integers are \<open>int\<close>; \<open>%\<close> on integers is floor-modulo, which is \<open>mod\<close> on \<open>int\<close>
    for a non-zero divisor; a zero divisor raises \<^verbatim>\<open>ZeroDivisionError\<close>, written out.
  \<^item> Python floats and scalar tensors are idealised as \<open>real\<close>: no rounding, overflow, infinity
    or NaN. Every statement about a learning rate or a loss below is a statement about this
    idealised arithmetic.
  \<^item> An exception is a value \<open>Inl e\<close> of the result type \<open>exn + 'a\<close>; on \<open>Inl\<close> the partially
    updated state of the raising function is not reported.
\<close>

subsection \<open>Exceptions\<close>

datatype exn =
    StopIteration
  | ZeroDivisionError
  | IndexError
  | UnboundLocalError
  | AttributeError
  | ComplexResult
  | Raised nat

text \<open>
  \<open>Raised n\<close> is an exception number \<open>n\<close> raised by a collaborator (data loading, forward pass,
  loss, optimizer step). \<open>ComplexResult\<close> is not a Python exception: it marks the one case in
  which Python 3 computes a complex number (a negative float raised to a non-integral power),
  a value that the real-valued model of learning rates cannot hold.
\<close>

subsection \<open>Optimizer parameter groups\<close>

text \<open>
  An entry of a parameter sequence: a tensor, identified by a number, or Python's \<^verbatim>\<open>None\<close>
  (the \<^verbatim>\<open>bias\<close> attribute of a convolution built without bias).
\<close>

datatype obj = Tensor nat | NoneObj

record param_group =
  params :: "obj list"
  lr :: real
  weight_decay :: real
  momentum :: real

record 'm optimizer =
  param_groups :: "param_group list"
  buffers :: 'm

text \<open>\<^verbatim>\<open>optimizer.param_groups[i]["lr"] = v\<close>; an index out of range raises \<^verbatim>\<open>IndexError\<close>.\<close>

definition set_lr :: "nat \<Rightarrow> real \<Rightarrow> 'm optimizer \<Rightarrow> exn + 'm optimizer" where
  "set_lr i v opt =
     (if i < length (param_groups opt)
      then Inr (opt\<lparr>param_groups := (param_groups opt)[i := (param_groups opt ! i)\<lparr>lr := v\<rparr>]\<rparr>)
      else Inl IndexError)"

subsection \<open>The scheduler\<close>

text \<open>
  Python's \<^verbatim>\<open>x ** p\<close> on floats. A positive base gives \<open>x powr p\<close>. A zero base gives 1 for
  exponent 0, 0 for a positive exponent and raises \<^verbatim>\<open>ZeroDivisionError\<close> for a negative one.
  A negative base gives an integer power for an integral exponent and a complex number
  otherwise.
\<close>

definition float_pow :: "real \<Rightarrow> real \<Rightarrow> exn + real" where
  "float_pow x p =
     (if 0 < x then Inr (x powr p)
      else if x = 0 then
        (if p = 0 then Inr 1 else if 0 < p then Inr 0 else Inl ZeroDivisionError)
      else if of_int \<lfloor>p\<rfloor> = p then Inr (x powi \<lfloor>p\<rfloor>)
      else Inl ComplexResult)"

text \<open>The condition of line 52 under which the scheduler returns \<^verbatim>\<open>None\<close> at once.\<close>

definition skips :: "int \<Rightarrow> int \<Rightarrow> int \<Rightarrow> bool" where
  "skips iter lr_decay_iter max_iter = (iter mod lr_decay_iter \<noteq> 0 \<or> iter > max_iter)"

text \<open>Line 54: \<^verbatim>\<open>init_lr * (1 - float(iter) / max_iter) ** power\<close>.\<close>

definition new_lr :: "real \<Rightarrow> int \<Rightarrow> int \<Rightarrow> real \<Rightarrow> exn + real" where
  "new_lr init_lr iter max_iter pw =
     (if max_iter = 0 then Inl ZeroDivisionError
      else case float_pow (1 - real_of_int iter / real_of_int max_iter) pw of
             Inl e \<Rightarrow> Inl e
           | Inr v \<Rightarrow> Inr (init_lr * v))"

text \<open>
  \<^verbatim>\<open>poly_lr_scheduler(optimizer, init_lr, iter, lr_decay_iter, max_iter, power)\<close>. The
  optimizer is mutated in place in the source and returned here; returning \<^verbatim>\<open>None\<close> early
  is returning the optimizer as it was. The argument \<^verbatim>\<open>power\<close> is written \<open>pw\<close>.
\<close>

definition poly_lr_scheduler ::
  "'m optimizer \<Rightarrow> real \<Rightarrow> int \<Rightarrow> int \<Rightarrow> int \<Rightarrow> real \<Rightarrow> exn + 'm optimizer" where
  "poly_lr_scheduler opt init_lr iter lr_decay_iter max_iter pw =
     (if lr_decay_iter = 0 then Inl ZeroDivisionError
      else if skips iter lr_decay_iter max_iter then Inr opt
      else case new_lr init_lr iter max_iter pw of
             Inl e \<Rightarrow> Inl e
           | Inr v \<Rightarrow>
              (case set_lr 0 v opt of
                 Inl e \<Rightarrow> Inl e
               | Inr o1 \<Rightarrow>
                  (case set_lr 1 (10 * v) o1 of
                     Inl e \<Rightarrow> Inl e
                   | Inr o2 \<Rightarrow> set_lr 2 (20 * v) o2)))"

subsection \<open>The parameter grouper\<close>

text \<open>
  A module is a convolution (\<^verbatim>\<open>nn.Conv2d\<close>) with its \<^verbatim>\<open>weight\<close> tensor and its \<^verbatim>\<open>bias\<close>
  (a tensor, or \<^verbatim>\<open>None\<close>), or any other module. A model is the enumeration that
  \<^verbatim>\<open>named_modules()\<close> yields: qualified name and module, in order.
\<close>

datatype module = Conv2d nat obj | OtherModule

type_synonym model = "(string \<times> module) list"

fun is_Conv2d :: "module \<Rightarrow> bool" where
  "is_Conv2d (Conv2d w b) = True"
| "is_Conv2d OtherModule = False"

fun weight :: "module \<Rightarrow> obj list" where
  "weight (Conv2d w b) = [Tensor w]"
| "weight OtherModule = []"

fun bias :: "module \<Rightarrow> obj list" where
  "bias (Conv2d w b) = [b]"
| "bias OtherModule = []"

text \<open>
  \<^verbatim>\<open>m.parameters()\<close> of a convolution: the weight, then the bias when there is one; a tensor
  is yielded once.
\<close>

fun parameters :: "module \<Rightarrow> obj list" where
  "parameters (Conv2d w NoneObj) = [Tensor w]"
| "parameters (Conv2d w (Tensor b)) = (if b = w then [Tensor w] else [Tensor w, Tensor b])"
| "parameters OtherModule = []"

text \<open>
  \<^verbatim>\<open>get_params(model, key)\<close>. The generator is the list of what it yields. The three \<^verbatim>\<open>if\<close>
  statements follow one another (they are not \<^verbatim>\<open>elif\<close>), hence the concatenation. The test
  \<^verbatim>\<open>"layer" in m[0]\<close> is the contiguous-substring test \<open>sublist\<close>.
\<close>

definition get_params :: "model \<Rightarrow> string \<Rightarrow> obj list" where
  "get_params model key =
     (if key = ''1x''
      then concat (map (\<lambda>m. parameters (snd m))
             (filter (\<lambda>m. sublist ''layer'' (fst m) \<and> is_Conv2d (snd m)) model))
      else [])
     @ (if key = ''10x''
        then concat (map (\<lambda>m. weight (snd m))
               (filter (\<lambda>m. sublist ''aspp'' (fst m) \<and> is_Conv2d (snd m)) model))
        else [])
     @ (if key = ''20x''
        then concat (map (\<lambda>m. bias (snd m))
               (filter (\<lambda>m. sublist ''aspp'' (fst m) \<and> is_Conv2d (snd m)) model))
        else [])"

text \<open>The tensors among the entries of a parameter sequence.\<close>

definition tensors :: "obj list \<Rightarrow> nat set" where
  "tensors xs = {n. Tensor n \<in> set xs}"

text \<open>
  The parameter slots of a model, one entry per \<^verbatim>\<open>weight\<close> and per \<^verbatim>\<open>bias\<close> that is a tensor. A
  model shares no tensor between two slots when this list is \<open>distinct\<close>.
\<close>

definition slot :: "module \<Rightarrow> obj list" where
  "slot md = weight md @ filter (\<lambda>b. b \<noteq> NoneObj) (bias md)"

definition slots :: "model \<Rightarrow> obj list" where
  "slots model = concat (map (\<lambda>m. slot (snd m)) model)"

subsection \<open>Configuration and formatting\<close>

record config =
  LR :: real
  WEIGHT_DECAY :: real
  MOMENTUM :: real
  ITER_MAX :: int
  ITER_SIZE :: int
  ITER_TB :: int
  ITER_SAVE :: int
  LR_DECAY :: int
  POLY_POWER :: real
  SAVE_DIR :: string

text \<open>\<^verbatim>\<open>"{}".format(n)\<close> for an integer: decimal digits, with a minus sign when negative.\<close>

definition digit_char :: "nat \<Rightarrow> char" where
  "digit_char d = char_of (48 + d)"

fun str_nat :: "nat \<Rightarrow> string" where
  "str_nat n = (if n < 10 then [digit_char n] else str_nat (n div 10) @ [digit_char (n mod 10)])"

declare str_nat.simps [simp del]

definition str_int :: "int \<Rightarrow> string" where
  "str_int i = (if i < 0 then CHR ''-'' # str_nat (nat (- i)) else str_nat (nat i))"

text \<open>\<^verbatim>\<open>os.path.join(d, f)\<close> for two components (POSIX).\<close>

definition osp_join :: "string \<Rightarrow> string \<Rightarrow> string" where
  "osp_join d f =
     (if f \<noteq> [] \<and> hd f = CHR ''/'' then f
      else if d = [] \<or> last d = CHR ''/'' then d @ f
      else d @ ''/'' @ f)"

definition checkpoint_path :: "config \<Rightarrow> int \<Rightarrow> string" where
  "checkpoint_path cfg iteration =
     osp_join (SAVE_DIR cfg) (''checkpoint_'' @ str_int iteration @ ''.pth'')"

definition current_path :: "config \<Rightarrow> string" where
  "current_path cfg = osp_join (SAVE_DIR cfg) ''checkpoint_current.pth''"

definition final_path :: "config \<Rightarrow> string" where
  "final_path cfg = osp_join (SAVE_DIR cfg) ''checkpoint_final.pth''"

subsection \<open>Collaborators and training state\<close>

text \<open>
  The collaborators of \<^verbatim>\<open>main\<close> are not part of \<^verbatim>\<open>train.py\<close> and are parameters of the model.
  \<^item> \<open>loader k\<close> is what the iterator created by the \<open>k\<close>-th call of \<^verbatim>\<open>iter(loader)\<close> yields:
    each entry is a batch, or an exception raised by that \<^verbatim>\<open>next\<close>; past the end, \<^verbatim>\<open>next\<close>
    raises \<^verbatim>\<open>StopIteration\<close>.
  \<^item> \<open>forward w b\<close> is lines 173 to 186 up to the sum: the forward pass on batch \<open>b\<close> with
    weights \<open>w\<close> and, for each output scale, the value of the criterion and its gradient with
    respect to the weights; or the exception one of these calls raises.
  \<^item> \<open>step opt g w\<close> is \<^verbatim>\<open>optimizer.step()\<close>: from the parameter groups and buffers, the
    accumulated gradient and the weights, the new weights and buffers; or an exception. It
    does not write to the parameter groups.
  \<^item> \<open>clock n\<close> is the value of the \<open>n\<close>-th call of \<^verbatim>\<open>time.time()\<close>.

  The writers (\<^verbatim>\<open>torch.save\<close>, the scalar writer, the meter and the CSV writer) are taken to
  succeed; what they write is recorded in the state.
\<close>

record ('w, 'g, 'b, 'm) env =
  loader :: "nat \<Rightarrow> (exn + 'b) list"
  forward :: "'w \<Rightarrow> 'b \<Rightarrow> exn + (real \<times> 'g) list"
  step :: "'m optimizer \<Rightarrow> 'g \<Rightarrow> 'w \<Rightarrow> exn + ('w \<times> 'm)"
  clock :: "nat \<Rightarrow> real"

text \<open>A write to the file system: \<^verbatim>\<open>torch.save\<close> of the weights, or the rows of the CSV file.\<close>

datatype 'w file_event = Saved string 'w | Csv string "(real \<times> real) list"

text \<open>
  The state of \<^verbatim>\<open>main\<close>. \<open>grad\<close> is the \<^verbatim>\<open>.grad\<close> buffer of the parameters. \<open>epoch\<close> counts the
  calls of \<^verbatim>\<open>iter(loader)\<close>, \<open>now\<close> the calls of \<^verbatim>\<open>time.time()\<close>. \<open>loss_meter\<close> holds the values
  added to the meter, newest first; \<open>tb\<close> and \<open>files\<close> are the scalars and the files written so
  far, oldest first. The local variables \<^verbatim>\<open>data_times\<close>, \<^verbatim>\<open>compute_times\<close>, \<^verbatim>\<open>start\<close> and
  \<^verbatim>\<open>end\<close> are \<open>None\<close> while unbound.
\<close>

record ('w, 'g, 'b, 'm) state =
  optimizer :: "'m optimizer"
  weights :: 'w
  grad :: 'g
  loader_iter :: "(exn + 'b) list"
  epoch :: nat
  now :: nat
  loss_meter :: "real list"
  tb :: "(string \<times> real \<times> int) list"
  files :: "'w file_event list"
  iter_loss :: real
  data_times :: "real list option"
  compute_times :: "real list option"
  start :: "real option"
  end_time :: "real option"

subsection \<open>The data pull (lines 164 to 168)\<close>

text \<open>
  \<^verbatim>\<open>next(loader_iter)\<close> in a \<^verbatim>\<open>try\<close> whose bare \<^verbatim>\<open>except:\<close> catches every exception, creates a
  new iterator and calls \<^verbatim>\<open>next\<close> on it once, outside any handler.
\<close>

definition pull ::
  "('w, 'g, 'b, 'm) env \<Rightarrow> ('w, 'g, 'b, 'm) state \<Rightarrow> exn + ('b \<times> ('w, 'g, 'b, 'm) state)" where
  "pull e st =
     (case loader_iter st of
        Inr b # rest \<Rightarrow> Inr (b, st\<lparr>loader_iter := rest\<rparr>)
      | _ \<Rightarrow>
         (case loader e (epoch st) of
            Inr b # rest \<Rightarrow> Inr (b, st\<lparr>loader_iter := rest, epoch := Suc (epoch st)\<rparr>)
          | Inl x # rest \<Rightarrow> Inl x
          | [] \<Rightarrow> Inl StopIteration))"

subsection \<open>The loss of one sub-iteration (lines 180 to 192)\<close>

text \<open>
  The Python value of \<^verbatim>\<open>loss\<close>: the integer it is initialised with, the float that
  \<^verbatim>\<open>/=\<close> makes of an integer, or a scalar tensor, held as its value together with its
  gradient with respect to the weights (what \<^verbatim>\<open>backward()\<close> adds to the \<^verbatim>\<open>.grad\<close> buffers).
\<close>

datatype 'g loss = PyInt int | PyFloat real | Scalar real 'g

text \<open>\<^verbatim>\<open>loss += criterion(logit, labels_)\<close>.\<close>

fun add_loss :: "('g::real_vector) loss \<Rightarrow> real \<times> 'g \<Rightarrow> 'g loss" where
  "add_loss (PyInt k) (v, g) = Scalar (real_of_int k + v) g"
| "add_loss (PyFloat x) (v, g) = Scalar (x + v) g"
| "add_loss (Scalar a ga) (v, g) = Scalar (a + v) (ga + g)"

text \<open>\<^verbatim>\<open>loss = 0\<close> followed by the loop over the output scales.\<close>

definition scales_loss :: "(real \<times> 'g) list \<Rightarrow> ('g::real_vector) loss" where
  "scales_loss ls = foldl add_loss (PyInt 0) ls"

text \<open>
  \<^verbatim>\<open>loss /= float(CONFIG.ITER_SIZE)\<close>. It is reached only inside the loop over
  \<^verbatim>\<open>range(1, CONFIG.ITER_SIZE + 1)\<close>, hence with a divisor of at least 1; a zero divisor is
  written out for the two Python numbers all the same.
\<close>

fun div_loss :: "('g::real_vector) loss \<Rightarrow> int \<Rightarrow> exn + 'g loss" where
  "div_loss (PyInt k) n = (if n = 0 then Inl ZeroDivisionError else Inr (PyFloat (real_of_int k / real_of_int n)))"
| "div_loss (PyFloat x) n = (if n = 0 then Inl ZeroDivisionError else Inr (PyFloat (x / real_of_int n)))"
| "div_loss (Scalar a g) n = Inr (Scalar (a / real_of_int n) (g /\<^sub>R real_of_int n))"

text \<open>\<^verbatim>\<open>loss.backward()\<close>: a tensor adds its gradient to the buffer; a number has no such method.\<close>

fun backward :: "('g::real_vector) loss \<Rightarrow> 'g \<Rightarrow> exn + 'g" where
  "backward (Scalar a g) buf = Inr (buf + g)"
| "backward (PyInt k) buf = Inl AttributeError"
| "backward (PyFloat x) buf = Inl AttributeError"

text \<open>\<^verbatim>\<open>float(loss)\<close>.\<close>

fun float_of :: "'g loss \<Rightarrow> real" where
  "float_of (PyInt k) = real_of_int k"
| "float_of (PyFloat x) = x"
| "float_of (Scalar a g) = a"

subsection \<open>Sequencing and loops\<close>

text \<open>Statement sequencing: an exception of the first part ends the whole.\<close>

fun and_then :: "exn + 'a \<Rightarrow> ('a \<Rightarrow> exn + 'b) \<Rightarrow> exn + 'b" where
  "and_then (Inl x) f = Inl x"
| "and_then (Inr a) f = f a"

text \<open>A \<^verbatim>\<open>for\<close> loop over a finite range; \<^verbatim>\<open>range(1, n + 1)\<close> is the list \<open>[1..n]\<close>.\<close>

fun for_each :: "('s \<Rightarrow> 'i \<Rightarrow> exn + 's) \<Rightarrow> 's \<Rightarrow> 'i list \<Rightarrow> exn + 's" where
  "for_each body st [] = Inr st"
| "for_each body st (i # is) = and_then (body st i) (\<lambda>st'. for_each body st' is)"

subsection \<open>One sub-iteration (lines 163 to 192)\<close>

text \<open>Lines 163 to 170: the timed data pull.\<close>

definition fetch ::
  "('w, 'g, 'b, 'm) env \<Rightarrow> ('w, 'g, 'b, 'm) state \<Rightarrow> exn + ('b \<times> ('w, 'g, 'b, 'm) state)" where
  "fetch e st =
     (let t0 = clock e (now st) in
      and_then (pull e (st\<lparr>start := Some t0, now := Suc (now st)\<rparr>)) (\<lambda>(b, s1).
        let t1 = clock e (now s1) in
        case data_times s1 of
          None \<Rightarrow> Inl UnboundLocalError
        | Some ds \<Rightarrow>
            Inr (b, s1\<lparr>end_time := Some t1, now := Suc (now s1),
                       data_times := Some (ds @ [t1 - t0])\<rparr>)))"

text \<open>Lines 172 to 192: forward pass, loss over the scales, division, backward, total.\<close>

definition compute ::
  "config \<Rightarrow> ('w, 'g::real_vector, 'b, 'm) env \<Rightarrow> 'b \<Rightarrow> ('w, 'g, 'b, 'm) state
     \<Rightarrow> exn + ('w, 'g, 'b, 'm) state" where
  "compute cfg e b st =
     (let s1 = st\<lparr>start := Some (clock e (now st)), now := Suc (now st)\<rparr> in
      and_then (forward e (weights s1) b) (\<lambda>ls.
      and_then (div_loss (scales_loss ls) (ITER_SIZE cfg)) (\<lambda>l.
      and_then (backward l (grad s1)) (\<lambda>g.
        Inr (s1\<lparr>grad := g, iter_loss := iter_loss s1 + float_of l\<rparr>)))))"

definition sub_iteration ::
  "config \<Rightarrow> ('w, 'g::real_vector, 'b, 'm) env \<Rightarrow> ('w, 'g, 'b, 'm) state
     \<Rightarrow> exn + ('w, 'g, 'b, 'm) state" where
  "sub_iteration cfg e st = and_then (fetch e st) (\<lambda>(b, s1). compute cfg e b s1)"

subsection \<open>One outer iteration (lines 145 to 227)\<close>

text \<open>
  Lines 194 to 199: the meter, the optimizer step, and the compute time, which is appended
  once per outer iteration, after the loop over the sub-iterations.
\<close>

definition update ::
  "('w, 'g, 'b, 'm) env \<Rightarrow> ('w, 'g, 'b, 'm) state \<Rightarrow> exn + ('w, 'g, 'b, 'm) state" where
  "update e st =
     (let s1 = st\<lparr>loss_meter := iter_loss st # loss_meter st\<rparr> in
      and_then (step e (optimizer s1) (grad s1) (weights s1)) (\<lambda>(w, m).
        let t = clock e (now s1);
            s2 = s1\<lparr>weights := w, optimizer := (optimizer s1)\<lparr>buffers := m\<rparr>,
                    end_time := Some t, now := Suc (now s1)\<rparr>
        in case compute_times s2 of
             None \<Rightarrow> Inl UnboundLocalError
           | Some cs \<Rightarrow>
              (case start s2 of
                 None \<Rightarrow> Inl UnboundLocalError
               | Some t0 \<Rightarrow> Inr (s2\<lparr>compute_times := Some (cs @ [t - t0])\<rparr>))))"

text \<open>
  \<^verbatim>\<open>loss_meter.value()[0]\<close> of a moving-average meter with window 20: the mean of the last
  values added, at most 20 of them.
\<close>

definition meter_value :: "real list \<Rightarrow> real" where
  "meter_value xs = sum_list (take 20 xs) / real (max 1 (length (take 20 xs)))"

text \<open>Lines 202 to 205; the disabled histogram branch writes nothing.\<close>

definition tensorboard ::
  "config \<Rightarrow> int \<Rightarrow> ('w, 'g, 'b, 'm) state \<Rightarrow> exn + ('w, 'g, 'b, 'm) state" where
  "tensorboard cfg iteration st =
     (if ITER_TB cfg = 0 then Inl ZeroDivisionError
      else if iteration mod ITER_TB cfg = 0
      then Inr (st\<lparr>tb := tb st
                   @ [(''train_loss'', meter_value (loss_meter st), iteration)]
                   @ map (\<lambda>(i, g). (''train_lr_group'' @ str_nat i, lr g, iteration))
                       (enumerate 0 (param_groups (optimizer st)))\<rparr>)
      else Inr st)"

text \<open>Lines 216 to 220: the history checkpoint.\<close>

definition save_history ::
  "config \<Rightarrow> int \<Rightarrow> ('w, 'g, 'b, 'm) state \<Rightarrow> exn + ('w, 'g, 'b, 'm) state" where
  "save_history cfg iteration st =
     (if ITER_SAVE cfg = 0 then Inl ZeroDivisionError
      else if iteration mod ITER_SAVE cfg = 0
      then Inr (st\<lparr>files := files st @ [Saved (checkpoint_path cfg iteration) (weights st)]\<rparr>)
      else Inr st)"

text \<open>Lines 223 to 227: the short-term checkpoint.\<close>

definition save_current ::
  "config \<Rightarrow> int \<Rightarrow> ('w, 'g, 'b, 'm) state \<Rightarrow> ('w, 'g, 'b, 'm) state" where
  "save_current cfg iteration st =
     (if iteration mod 100 = 0
      then st\<lparr>files := files st @ [Saved (current_path cfg) (weights st)]\<rparr>
      else st)"

text \<open>Lines 156 to 161: \<^verbatim>\<open>zero_grad()\<close> and the locals that every outer iteration resets.\<close>

definition reset ::
  "('w, 'g::real_vector, 'b, 'm) state \<Rightarrow> ('w, 'g, 'b, 'm) state" where
  "reset st = st\<lparr>grad := 0, iter_loss := 0, data_times := Some [], compute_times := Some []\<rparr>"

text \<open>Lines 162 to 192: the loop over the sub-iterations.\<close>

definition accumulate ::
  "config \<Rightarrow> ('w, 'g::real_vector, 'b, 'm) env \<Rightarrow> ('w, 'g, 'b, 'm) state
     \<Rightarrow> exn + ('w, 'g, 'b, 'm) state" where
  "accumulate cfg e st = for_each (\<lambda>s (i::int). sub_iteration cfg e s) st [1..ITER_SIZE cfg]"

definition train_iteration ::
  "config \<Rightarrow> ('w, 'g::real_vector, 'b, 'm) env \<Rightarrow> ('w, 'g, 'b, 'm) state \<Rightarrow> int
     \<Rightarrow> exn + ('w, 'g, 'b, 'm) state" where
  "train_iteration cfg e st iteration =
     and_then (poly_lr_scheduler (optimizer st) (LR cfg) (iteration - 1) (LR_DECAY cfg)
                 (ITER_MAX cfg) (POLY_POWER cfg)) (\<lambda>opt.
     and_then (accumulate cfg e (reset (st\<lparr>optimizer := opt\<rparr>))) (\<lambda>s2.
     and_then (update e s2) (\<lambda>s3.
     and_then (tensorboard cfg iteration s3) (\<lambda>s4.
     and_then (save_history cfg iteration s4) (\<lambda>s5.
       Inr (save_current cfg iteration s5))))))"

subsection \<open>The whole run (lines 95 to 237)\<close>

text \<open>
  Lines 105 to 125: the three parameter groups handed to \<^verbatim>\<open>torch.optim.SGD\<close>, which fills
  \<^verbatim>\<open>momentum\<close> into each group. The constructor's own validation of the groups is not part
  of \<^verbatim>\<open>train.py\<close> and is not modelled.
\<close>

definition SGD_groups :: "config \<Rightarrow> model \<Rightarrow> param_group list" where
  "SGD_groups cfg model =
     [\<lparr>params = get_params model ''1x'', lr = LR cfg,
       weight_decay = WEIGHT_DECAY cfg, momentum = MOMENTUM cfg\<rparr>,
      \<lparr>params = get_params model ''10x'', lr = 10 * LR cfg,
       weight_decay = WEIGHT_DECAY cfg, momentum = MOMENTUM cfg\<rparr>,
      \<lparr>params = get_params model ''20x'', lr = 20 * LR cfg,
       weight_decay = 0, momentum = MOMENTUM cfg\<rparr>]"

text \<open>
  The state on entry to the loop: the first iterator of the loader has been created (line
  95), the initial weights \<open>w0\<close> are loaded, the optimizer starts with buffers \<open>m0\<close>, nothing
  has been written, and the timing locals are unbound. The gradient buffers, absent before
  the first \<^verbatim>\<open>backward()\<close>, are held as 0; \<^verbatim>\<open>iter_loss\<close> is assigned before it is read.
\<close>

definition initial_state ::
  "config \<Rightarrow> ('w, 'g::real_vector, 'b, 'm) env \<Rightarrow> model \<Rightarrow> 'w \<Rightarrow> 'm \<Rightarrow> ('w, 'g, 'b, 'm) state" where
  "initial_state cfg e model w0 m0 =
     \<lparr>optimizer = \<lparr>param_groups = SGD_groups cfg model, buffers = m0\<rparr>,
      weights = w0, grad = 0, loader_iter = loader e 0, epoch = 1, now = 0,
      loss_meter = [], tb = [], files = [], iter_loss = 0,
      data_times = None, compute_times = None, start = None, end_time = None\<rparr>"

text \<open>Lines 138 to 227: the loop over \<^verbatim>\<open>range(1, CONFIG.ITER_MAX + 1)\<close>.\<close>

definition main_loop ::
  "config \<Rightarrow> ('w, 'g::real_vector, 'b, 'm) env \<Rightarrow> ('w, 'g, 'b, 'm) state \<Rightarrow> int list
     \<Rightarrow> exn + ('w, 'g, 'b, 'm) state" where
  "main_loop cfg e st iterations = for_each (train_iteration cfg e) st iterations"

text \<open>
  Lines 229 to 237: the rows \<^verbatim>\<open>zip(data_times, compute_times)\<close> go to \<^verbatim>\<open>logs.csv\<close>, then the
  final weights are saved. Both lists are read as the last outer iteration left them.
\<close>

definition finish ::
  "config \<Rightarrow> ('w, 'g, 'b, 'm) state \<Rightarrow> exn + ('w, 'g, 'b, 'm) state" where
  "finish cfg st =
     (case data_times st of
        None \<Rightarrow> Inl UnboundLocalError
      | Some ds \<Rightarrow>
         (case compute_times st of
            None \<Rightarrow> Inl UnboundLocalError
          | Some cs \<Rightarrow>
             Inr (st\<lparr>files := files st @ [Csv ''logs.csv'' (zip ds cs),
                                            Saved (final_path cfg) (weights st)]\<rparr>)))"

definition main ::
  "config \<Rightarrow> ('w, 'g::real_vector, 'b, 'm) env \<Rightarrow> model \<Rightarrow> 'w \<Rightarrow> 'm
     \<Rightarrow> exn + ('w, 'g, 'b, 'm) state" where
  "main cfg e model w0 m0 =
     and_then (main_loop cfg e (initial_state cfg e model w0 m0) [1..ITER_MAX cfg]) (finish cfg)"

subsection \<open>Example inputs\<close>

text \<open>A parameter group without parameters and an optimizer with three such groups.\<close>

definition group0 :: param_group where
  "group0 = \<lparr>params = [], lr = 1, weight_decay = 0, momentum = 0\<rparr>"

definition opt3 :: "unit optimizer" where
  "opt3 = \<lparr>param_groups = [group0, group0, group0], buffers = ()\<rparr>"

text \<open>
  Three enumerations of named modules: one in the naming of the DeepLab model (backbone
  convolutions under \<^verbatim>\<open>layer\<close>, ASPP convolutions under \<^verbatim>\<open>aspp\<close>), one without ASPP modules, and
  one whose only convolution has both substrings in its name.
\<close>

definition model_deeplab :: model where
  "model_deeplab =
     [(''scale'', OtherModule),
      (''scale.layer1.conv1.conv'', Conv2d 0 NoneObj),
      (''scale.layer1.conv1.bn'', OtherModule),
      (''scale.aspp.stages.c0'', Conv2d 1 (Tensor 2)),
      (''scale.aspp.stages.c1'', Conv2d 3 (Tensor 4))]"

definition model_no_aspp :: model where
  "model_no_aspp =
     [(''backbone'', OtherModule),
      (''backbone.layer1.conv'', Conv2d 0 (Tensor 1))]"

definition model_overlap :: model where
  "model_overlap = [(''layer5.aspp.c0'', Conv2d 0 (Tensor 1))]"

text \<open>
  A run with two outer iterations of two sub-iterations each over a loader of three batches
  (the fourth pull finds the iterator exhausted). Weights are a step counter, a gradient is a
  real number, a batch is a number; batch \<open>b\<close> has the losses \<open>b\<close> and 1 at its two output
  scales, with gradients 1 and 2.
\<close>

definition cfg0 :: config where
  "cfg0 = \<lparr>LR = 1 / 10, WEIGHT_DECAY = 1 / 2000, MOMENTUM = 9 / 10, ITER_MAX = 2,
           ITER_SIZE = 2, ITER_TB = 1, ITER_SAVE = 1, LR_DECAY = 1, POLY_POWER = 1,
           SAVE_DIR = ''out''\<rparr>"

definition env0 :: "(nat, real, nat, unit) env" where
  "env0 = \<lparr>loader = (\<lambda>k. [Inr 0, Inr 1, Inr 2]),
           forward = (\<lambda>w b. Inr [(real b, 1), (1, 2)]),
           step = (\<lambda>opt g w. Inr (Suc w, ())),
           clock = (\<lambda>n. real n)\<rparr>"

text \<open>The same run with a forward pass that raises on batch 1, and with an empty loader.\<close>

definition env_shape :: "(nat, real, nat, unit) env" where
  "env_shape = env0\<lparr>forward := (\<lambda>w b. if b = 1 then Inl (Raised 7) else Inr [(real b, 1), (1, 2)])\<rparr>"

definition env_empty :: "(nat, real, nat, unit) env" where
  "env_empty = env0\<lparr>loader := (\<lambda>k. [])\<rparr>"

text \<open>A loader whose first iterator raises a loading error on its second \<^verbatim>\<open>next\<close>.\<close>

definition env_ioerror :: "(nat, real, nat, unit) env" where
  "env_ioerror = env0\<lparr>loader := (\<lambda>k. if k = 0 then [Inr 0, Inl (Raised 5), Inr 2] else [Inr 3, Inr 4])\<rparr>"

text \<open>The optimizer of the example run after the scheduler call of its first iteration.\<close>

definition sched0 :: "unit optimizer" where
  "sched0 =
     \<lparr>param_groups =
        [\<lparr>params = [Tensor 0], lr = 1 / 10, weight_decay = 1 / 2000, momentum = 9 / 10\<rparr>,
         \<lparr>params = [Tensor 1, Tensor 3], lr = 1, weight_decay = 1 / 2000, momentum = 9 / 10\<rparr>,
         \<lparr>params = [Tensor 2, Tensor 4], lr = 2, weight_decay = 0, momentum = 9 / 10\<rparr>],
      buffers = ()\<rparr>"

subsection \<open>Notions of the specification\<close>

text \<open>The path a file event writes to.\<close>

fun path_of :: "'w file_event \<Rightarrow> string" where
  "path_of (Saved p w) = p"
| "path_of (Csv p rows) = p"

text \<open>
  The specification's cadence of checkpoint writes over a sequence of outer iterations: at
  an iteration that is a multiple of \<^verbatim>\<open>ITER_SAVE\<close> the history file named by the iteration, then
  at a multiple of 100 the file \<^verbatim>\<open>checkpoint_current.pth\<close>.
\<close>

definition cadence :: "config \<Rightarrow> int list \<Rightarrow> string list" where
  "cadence cfg its =
     concat (map (\<lambda>i. (if i mod ITER_SAVE cfg = 0 then [checkpoint_path cfg i] else [])
                      @ (if i mod 100 = 0 then [current_path cfg] else [])) its)"

text \<open>
  The summed-across-scales loss of a sub-iteration before the division, with its gradient:
  the sum of what the criterion returns for the output scales of the batch.
\<close>

definition summed :: "(real \<times> 'g) list \<Rightarrow> real \<times> ('g::real_vector)" where
  "summed ls = (sum_list (map fst ls), sum_list (map snd ls))"

text \<open>
  The summed losses of the next \<open>n\<close> sub-iterations from a state: for each sub-iteration, the
  summed loss of the batch its pull delivers. The list ends where a sub-iteration raises.
\<close>

fun sub_losses ::
  "config \<Rightarrow> ('w, 'g::real_vector, 'b, 'm) env \<Rightarrow> ('w, 'g, 'b, 'm) state \<Rightarrow> nat
     \<Rightarrow> (real \<times> 'g) list" where
  "sub_losses cfg e st 0 = []"
| "sub_losses cfg e st (Suc n) =
     (case fetch e st of
        Inl x \<Rightarrow> []
      | Inr (b, s1) \<Rightarrow>
         (case forward e (weights s1) b of
            Inl x \<Rightarrow> []
          | Inr ls \<Rightarrow>
             (case compute cfg e b s1 of
                Inl x \<Rightarrow> []
              | Inr s2 \<Rightarrow> summed ls # sub_losses cfg e s2 n)))"

text \<open>The rows that the file events have written to the CSV file.\<close>

fun rows_of :: "'w file_event \<Rightarrow> (real \<times> real) list" where
  "rows_of (Saved p w) = []"
| "rows_of (Csv p rows) = rows"

definition csv_rows :: "'w file_event list \<Rightarrow> (real \<times> real) list" where
  "csv_rows fs = concat (map rows_of fs)"

text \<open>
  Collaborators that never raise: every fresh iterator of the loader yields a batch first,
  the forward pass returns the losses of at least one output scale, and the optimizer step
  returns. A configuration with which the loop raises nothing of its own: at least one outer
  iteration and one sub-iteration, and non-zero intervals.
\<close>

definition reliable :: "('w, 'g, 'b, 'm) env \<Rightarrow> bool" where
  "reliable e \<longleftrightarrow>
     (\<forall>k. \<exists>b r. loader e k = Inr b # r) \<and>
     (\<forall>w b. \<exists>ls. forward e w b = Inr ls \<and> ls \<noteq> []) \<and>
     (\<forall>opt g w. \<exists>w' m. step e opt g w = Inr (w', m))"

definition valid_config :: "config \<Rightarrow> bool" where
  "valid_config cfg \<longleftrightarrow>
     1 \<le> ITER_MAX cfg \<and> 1 \<le> ITER_SIZE cfg \<and> ITER_TB cfg \<noteq> 0 \<and> ITER_SAVE cfg \<noteq> 0 \<and>
     LR_DECAY cfg \<noteq> 0"

text \<open>The example configuration with 2500 outer iterations and a history checkpoint every 1000.\<close>

definition cfg_long :: config where
  "cfg_long = cfg0\<lparr>ITER_MAX := 2500, ITER_SAVE := 1000\<rparr>"

section \<open>Properties\<close>

subsection \<open>The scheduler\<close>

lemma length3_Cons:
  "3 \<le> length xs \<longleftrightarrow> (\<exists>a b c r. xs = a # b # c # r)"
  by (auto simp: eval_nat_numeral Suc_le_length_iff)

lemma set_lr_Inr:
  "set_lr i v opt = Inr o' \<longleftrightarrow>
     i < length (param_groups opt) \<and>
     o' = opt\<lparr>param_groups := (param_groups opt)[i := (param_groups opt ! i)\<lparr>lr := v\<rparr>]\<rparr>"
  by (auto simp: set_lr_def)

text \<open>A call that passes the guard of line 52 and returns has made the three assignments.\<close>

lemma poly_lr_scheduler_fires:
  assumes "\<not> skips iter lr_decay_iter max_iter"
    and "poly_lr_scheduler opt init_lr iter lr_decay_iter max_iter pw = Inr opt'"
  shows "\<exists>v. new_lr init_lr iter max_iter pw = Inr v \<and> 3 \<le> length (param_groups opt) \<and>
           opt' = opt\<lparr>param_groups := (param_groups opt)
                    [0 := (param_groups opt ! 0)\<lparr>lr := v\<rparr>,
                     1 := (param_groups opt ! 1)\<lparr>lr := 10 * v\<rparr>,
                     2 := (param_groups opt ! 2)\<lparr>lr := 20 * v\<rparr>]\<rparr>"
  using assms
  by (auto simp: poly_lr_scheduler_def set_lr_Inr split: if_splits sum.splits)

lemma poly_lr_scheduler_skips:
  "lr_decay_iter \<noteq> 0 \<Longrightarrow> skips iter lr_decay_iter max_iter \<Longrightarrow>
     poly_lr_scheduler opt init_lr iter lr_decay_iter max_iter pw = Inr opt"
  by (simp add: poly_lr_scheduler_def)

lemma poly_lr_scheduler_success:
  assumes "lr_decay_iter \<noteq> 0" "\<not> skips iter lr_decay_iter max_iter"
    "new_lr init_lr iter max_iter pw = Inr v" "3 \<le> length (param_groups opt)"
  shows "poly_lr_scheduler opt init_lr iter lr_decay_iter max_iter pw =
           Inr (opt\<lparr>param_groups := (param_groups opt)
                    [0 := (param_groups opt ! 0)\<lparr>lr := v\<rparr>,
                     1 := (param_groups opt ! 1)\<lparr>lr := 10 * v\<rparr>,
                     2 := (param_groups opt ! 2)\<lparr>lr := 20 * v\<rparr>]\<rparr>)"
  using assms
  by (auto simp: poly_lr_scheduler_def set_lr_def split: if_splits sum.splits)

lemma float_pow_pos: "0 < p \<Longrightarrow> 0 \<le> x \<Longrightarrow> float_pow x p = Inr (x powr p)"
  by (simp add: float_pow_def)

text \<open>
  Claim C2, as amended. The claim as stated (for all inputs the scheduler is a no-op unless
  \<open>current_iter\<close> is a multiple of \<open>decay_interval\<close> and at most \<open>max_iter\<close>, it always fires at
  \<open>current_iter = 0\<close>, and when it fires it sets the base rate to
  \<open>base_lr * (1 - current_iter / max_iter) ^ power\<close>) holds under conditions on the inputs:
  \<^item> for a non-zero \<open>decay_interval\<close>, a call that does not meet the firing condition returns the
    optimizer unchanged;
  \<^item> for a non-zero \<open>decay_interval\<close> and a positive \<open>max_iter\<close>, \<open>current_iter = 0\<close> meets the
    firing condition;
  \<^item> for a non-zero \<open>decay_interval\<close>, a positive \<open>max_iter\<close>, an optimizer of at least three
    groups and \<open>current_iter < max_iter\<close> or \<open>power \<ge> 0\<close>, a call that meets the firing
    condition returns with the base group's rate set to \<open>base_lr\<close> times the decay factor: the
    real power \<open>(1 - current_iter / max_iter) powr power\<close> of the positive base below \<open>max_iter\<close>
    and, at \<open>current_iter = max_iter\<close>, 1 for \<open>power = 0\<close> and 0 for \<open>power > 0\<close>.
\<close>

theorem scheduler_contract:
  "(lr_decay_iter \<noteq> 0 \<and> skips iter lr_decay_iter max_iter \<longrightarrow>
      poly_lr_scheduler opt init_lr iter lr_decay_iter max_iter pw = Inr opt) \<and>
   (lr_decay_iter \<noteq> 0 \<and> 0 < max_iter \<longrightarrow> \<not> skips 0 lr_decay_iter max_iter) \<and>
   (lr_decay_iter \<noteq> 0 \<and> 0 < max_iter \<and> \<not> skips iter lr_decay_iter max_iter \<and>
    3 \<le> length (param_groups opt) \<and> (iter < max_iter \<or> 0 \<le> pw) \<longrightarrow>
      (\<exists>opt'. poly_lr_scheduler opt init_lr iter lr_decay_iter max_iter pw = Inr opt' \<and>
         lr (param_groups opt' ! 0) =
           init_lr * (if iter < max_iter
                      then (1 - real_of_int iter / real_of_int max_iter) powr pw
                      else if pw = 0 then 1 else 0)))"
proof (intro conjI impI)
  assume "lr_decay_iter \<noteq> 0 \<and> skips iter lr_decay_iter max_iter"
  then show "poly_lr_scheduler opt init_lr iter lr_decay_iter max_iter pw = Inr opt"
    by (simp add: poly_lr_scheduler_skips)
next
  assume "lr_decay_iter \<noteq> 0 \<and> 0 < max_iter"
  then show "\<not> skips 0 lr_decay_iter max_iter" by (simp add: skips_def)
next
  assume a: "lr_decay_iter \<noteq> 0 \<and> 0 < max_iter \<and> \<not> skips iter lr_decay_iter max_iter \<and>
    3 \<le> length (param_groups opt) \<and> (iter < max_iter \<or> 0 \<le> pw)"
  let ?f = "if iter < max_iter then (1 - real_of_int iter / real_of_int max_iter) powr pw
            else if pw = 0 then 1 else (0::real)"
  from a have le: "iter \<le> max_iter" by (simp add: skips_def)
  have "float_pow (1 - real_of_int iter / real_of_int max_iter) pw = Inr ?f"
  proof (cases "iter < max_iter")
    case True
    with a have "0 < 1 - real_of_int iter / real_of_int max_iter" by simp
    with True show ?thesis by (simp add: float_pow_def)
  next
    case False
    with le have "iter = max_iter" by simp
    with a False show ?thesis by (auto simp: float_pow_def)
  qed
  with a have "new_lr init_lr iter max_iter pw = Inr (init_lr * ?f)"
    by (simp add: new_lr_def)
  with a have "poly_lr_scheduler opt init_lr iter lr_decay_iter max_iter pw =
           Inr (opt\<lparr>param_groups := (param_groups opt)
                    [0 := (param_groups opt ! 0)\<lparr>lr := init_lr * ?f\<rparr>,
                     1 := (param_groups opt ! 1)\<lparr>lr := 10 * (init_lr * ?f)\<rparr>,
                     2 := (param_groups opt ! 2)\<lparr>lr := 20 * (init_lr * ?f)\<rparr>]\<rparr>)"
    by (intro poly_lr_scheduler_success) simp_all
  moreover from a have "lr (param_groups (opt\<lparr>param_groups := (param_groups opt)
                    [0 := (param_groups opt ! 0)\<lparr>lr := init_lr * ?f\<rparr>,
                     1 := (param_groups opt ! 1)\<lparr>lr := 10 * (init_lr * ?f)\<rparr>,
                     2 := (param_groups opt ! 2)\<lparr>lr := 20 * (init_lr * ?f)\<rparr>]\<rparr>) ! 0) = init_lr * ?f"
    by (auto simp: length3_Cons)
  ultimately show "\<exists>opt'. poly_lr_scheduler opt init_lr iter lr_decay_iter max_iter pw = Inr opt' \<and>
         lr (param_groups opt' ! 0) = init_lr * ?f"
    by blast
qed

text \<open>
  Witness for C2: with interval 2 and \<open>max_iter = 10\<close>, iteration 1 is skipped, iterations 0
  and 4 meet the firing condition, and at iteration 4 with power 1 and base rate 1/10 the base
  group's rate becomes 3/50.
\<close>

theorem scheduler_contract_witness:
  "skips 1 2 10 \<and> poly_lr_scheduler opt3 (1/10) 1 2 10 1 = Inr opt3 \<and>
   \<not> skips 0 2 10 \<and> \<not> skips 4 2 10 \<and>
   (\<exists>opt'. poly_lr_scheduler opt3 (1/10) 4 2 10 1 = Inr opt' \<and>
        lr (param_groups opt' ! 0) = 3 / 50)"
proof -
  have a: "(2::int) \<noteq> 0 \<and> skips 1 2 10" by (simp add: skips_def)
  have b: "(2::int) \<noteq> 0 \<and> (0::int) < 10" by simp
  have c: "(2::int) \<noteq> 0 \<and> (0::int) < 10 \<and> \<not> skips 4 2 10 \<and>
    3 \<le> length (param_groups opt3) \<and> ((4::int) < 10 \<or> (0::real) \<le> 1)"
    by (simp add: skips_def opt3_def)
  from a b c scheduler_contract [of 2 1 10 opt3 "1/10" 1]
    scheduler_contract [of 2 4 10 opt3 "1/10" 1]
  show ?thesis by (auto simp: skips_def)
qed

text \<open>
  Counterexample to C2 as stated. With \<open>current_iter = 0\<close>, interval 1 and \<open>max_iter = 0\<close> the
  firing condition holds (0 is a multiple of 1 and \<open>0 \<le> 0\<close>), yet the call raises
  \<^verbatim>\<open>ZeroDivisionError\<close> at line 54 and sets no rate. With \<open>max_iter = - 1\<close> the call at
  \<open>current_iter = 0\<close> does not fire: it returns with the optimizer unchanged.
\<close>

theorem scheduler_contract_counterexample:
  "\<not> skips 0 1 0 \<and> poly_lr_scheduler opt3 (1/10) 0 1 0 (9/10) = Inl ZeroDivisionError \<and>
   skips 0 1 (- 1) \<and> poly_lr_scheduler opt3 (1/10) 0 1 (- 1) (9/10) = Inr opt3"
  by (simp add: poly_lr_scheduler_def skips_def new_lr_def)

text \<open>
  Claim C3. Immediately after a scheduler call that fires (it passes the guard of line 52 and
  returns), the optimizer has its three groups, the rate of the second group is 10 times and
  the rate of the third group 20 times the rate of the first.
\<close>

theorem scheduler_group_ratios:
  assumes "\<not> skips iter lr_decay_iter max_iter"
    and "poly_lr_scheduler opt init_lr iter lr_decay_iter max_iter pw = Inr opt'"
  shows "3 \<le> length (param_groups opt') \<and>
         lr (param_groups opt' ! 1) = 10 * lr (param_groups opt' ! 0) \<and>
         lr (param_groups opt' ! 2) = 20 * lr (param_groups opt' ! 0)"
  using poly_lr_scheduler_fires [OF assms] by (auto simp: length3_Cons)

text \<open>
  Witness for C3: the first call of a run (iteration 0, interval 1, \<open>max_iter = 10\<close>, base rate
  1/10) fires and leaves the rates 1/10, 1 and 2.
\<close>

theorem scheduler_group_ratios_witness:
  "\<not> skips 0 1 10 \<and>
   poly_lr_scheduler opt3 (1/10) 0 1 10 1 =
     Inr (opt3\<lparr>param_groups := [group0\<lparr>lr := 1 / 10\<rparr>, group0\<lparr>lr := 1\<rparr>, group0\<lparr>lr := 2\<rparr>]\<rparr>) \<and>
   lr (group0\<lparr>lr := 1\<rparr>) = 10 * lr (group0\<lparr>lr := 1 / 10\<rparr>) \<and>
   lr (group0\<lparr>lr := 2\<rparr>) = 20 * lr (group0\<lparr>lr := 1 / 10\<rparr>)"
proof -
  have s: "\<not> skips 0 1 10" by (simp add: skips_def)
  have r: "poly_lr_scheduler opt3 (1/10) 0 1 10 1 =
     Inr (opt3\<lparr>param_groups := [group0\<lparr>lr := 1 / 10\<rparr>, group0\<lparr>lr := 1\<rparr>, group0\<lparr>lr := 2\<rparr>]\<rparr>)"
    by (simp add: poly_lr_scheduler_def skips_def new_lr_def float_pow_def set_lr_def opt3_def)
  from scheduler_group_ratios [OF s r] s r show ?thesis by simp
qed

text \<open>
  Claim C7, as amended. For a base rate \<open>init_lr \<ge> 0\<close> and \<open>power > 0\<close>: if the scheduler fires
  at iteration \<open>i\<close> and at iteration \<open>j\<close> with \<open>0 \<le> i \<le> j \<le> max_iter\<close>, the base group's rate set
  at \<open>j\<close> is at most the one set at \<open>i\<close>. (The claim as stated puts no condition on the sign of
  the base rate.)
\<close>

theorem scheduler_monotone:
  assumes "0 \<le> init_lr" and "0 < pw" and "0 \<le> i" and "i \<le> j" and "j \<le> max_iter"
    and "\<not> skips i lr_decay_iter max_iter"
    and "poly_lr_scheduler opt init_lr i lr_decay_iter max_iter pw = Inr oi"
    and "\<not> skips j lr_decay_iter max_iter"
    and "poly_lr_scheduler opt' init_lr j lr_decay_iter max_iter pw = Inr oj"
  shows "lr (param_groups oj ! 0) \<le> lr (param_groups oi ! 0)"
proof -
  from poly_lr_scheduler_fires [OF assms(6) assms(7)] obtain vi where
    vi: "new_lr init_lr i max_iter pw = Inr vi" "lr (param_groups oi ! 0) = vi"
    by (auto simp: length3_Cons)
  from poly_lr_scheduler_fires [OF assms(8) assms(9)] obtain vj where
    vj: "new_lr init_lr j max_iter pw = Inr vj" "lr (param_groups oj ! 0) = vj"
    by (auto simp: length3_Cons)
  from vi have m: "max_iter \<noteq> 0" by (auto simp: new_lr_def split: if_splits)
  with assms have mp: "0 < max_iter" by simp
  let ?bi = "1 - real_of_int i / real_of_int max_iter"
  let ?bj = "1 - real_of_int j / real_of_int max_iter"
  from mp assms have bj0: "0 \<le> ?bj" by simp
  from mp assms have bji: "?bj \<le> ?bi" by (simp add: divide_right_mono)
  from bj0 bji have bi0: "0 \<le> ?bi" by linarith
  from vi m bi0 assms(2) have "vi = init_lr * ?bi powr pw"
    by (simp add: new_lr_def float_pow_pos)
  moreover from vj m bj0 assms(2) have "vj = init_lr * ?bj powr pw"
    by (simp add: new_lr_def float_pow_pos)
  moreover from bj0 bji assms(2) have "?bj powr pw \<le> ?bi powr pw"
    by (intro powr_mono2) simp_all
  ultimately show ?thesis using vi vj assms(1) by (simp add: mult_left_mono)
qed

text \<open>
  Witness for C7: base rate 1, power 1, \<open>max_iter = 10\<close>; the rate set at iteration 5 is 1/2,
  the rate set at iteration 0 is 1.
\<close>

theorem scheduler_monotone_witness:
  "poly_lr_scheduler opt3 1 0 1 10 1 =
     Inr (opt3\<lparr>param_groups := [group0\<lparr>lr := 1\<rparr>, group0\<lparr>lr := 10\<rparr>, group0\<lparr>lr := 20\<rparr>]\<rparr>) \<and>
   poly_lr_scheduler opt3 1 5 1 10 1 =
     Inr (opt3\<lparr>param_groups := [group0\<lparr>lr := 1 / 2\<rparr>, group0\<lparr>lr := 5\<rparr>, group0\<lparr>lr := 10\<rparr>]\<rparr>) \<and>
   lr (group0\<lparr>lr := 1 / 2\<rparr>) \<le> lr (group0\<lparr>lr := 1\<rparr>)"
proof -
  have s0: "\<not> skips 0 1 10" and s5: "\<not> skips 5 1 10" by (simp_all add: skips_def)
  have r0: "poly_lr_scheduler opt3 1 0 1 10 1 =
     Inr (opt3\<lparr>param_groups := [group0\<lparr>lr := 1\<rparr>, group0\<lparr>lr := 10\<rparr>, group0\<lparr>lr := 20\<rparr>]\<rparr>)"
    by (simp add: poly_lr_scheduler_def skips_def new_lr_def float_pow_def set_lr_def opt3_def)
  have r5: "poly_lr_scheduler opt3 1 5 1 10 1 =
     Inr (opt3\<lparr>param_groups := [group0\<lparr>lr := 1 / 2\<rparr>, group0\<lparr>lr := 5\<rparr>, group0\<lparr>lr := 10\<rparr>]\<rparr>)"
    by (simp add: poly_lr_scheduler_def skips_def new_lr_def float_pow_def set_lr_def opt3_def)
  have "lr (param_groups (opt3\<lparr>param_groups := [group0\<lparr>lr := 1 / 2\<rparr>, group0\<lparr>lr := 5\<rparr>, group0\<lparr>lr := 10\<rparr>]\<rparr>) ! 0)
      \<le> lr (param_groups (opt3\<lparr>param_groups := [group0\<lparr>lr := 1\<rparr>, group0\<lparr>lr := 10\<rparr>, group0\<lparr>lr := 20\<rparr>]\<rparr>) ! 0)"
    by (rule scheduler_monotone [OF _ _ _ _ _ s0 r0 s5 r5]) simp_all
  with r0 r5 show ?thesis by simp
qed

text \<open>
  Counterexample to C7 as stated: with base rate \<open>- 1\<close>, power 1, interval 1 and
  \<open>max_iter = 10\<close> the scheduler fires at iterations 0 and 5 and sets the base group's rate to
  \<open>- 1\<close> and then to \<open>- 1/2\<close>, which is larger.
\<close>

theorem scheduler_monotone_counterexample:
  "\<not> skips 0 1 10 \<and> \<not> skips 5 1 10 \<and>
   poly_lr_scheduler opt3 (- 1) 0 1 10 1 =
     Inr (opt3\<lparr>param_groups := [group0\<lparr>lr := - 1\<rparr>, group0\<lparr>lr := - 10\<rparr>, group0\<lparr>lr := - 20\<rparr>]\<rparr>) \<and>
   poly_lr_scheduler opt3 (- 1) 5 1 10 1 =
     Inr (opt3\<lparr>param_groups := [group0\<lparr>lr := - 1 / 2\<rparr>, group0\<lparr>lr := - 5\<rparr>, group0\<lparr>lr := - 10\<rparr>]\<rparr>) \<and>
   \<not> (lr (group0\<lparr>lr := - 1 / 2\<rparr>) \<le> lr (group0\<lparr>lr := - 1\<rparr>))"
  by (simp add: poly_lr_scheduler_def skips_def new_lr_def float_pow_def set_lr_def opt3_def)

text \<open>
  Claim C9. A scheduler call that returns, whether it fired or not, leaves the number of
  groups and the optimizer's buffers as they were, and in every group the parameter
  membership, the weight decay and the momentum; a group beyond the third is unchanged
  altogether.
\<close>

theorem scheduler_frame:
  assumes "poly_lr_scheduler opt init_lr iter lr_decay_iter max_iter pw = Inr opt'"
  shows "length (param_groups opt') = length (param_groups opt) \<and>
         buffers opt' = buffers opt \<and>
         (\<forall>i < length (param_groups opt).
            params (param_groups opt' ! i) = params (param_groups opt ! i) \<and>
            weight_decay (param_groups opt' ! i) = weight_decay (param_groups opt ! i) \<and>
            momentum (param_groups opt' ! i) = momentum (param_groups opt ! i) \<and>
            (3 \<le> i \<longrightarrow> param_groups opt' ! i = param_groups opt ! i))"
proof (cases "skips iter lr_decay_iter max_iter")
  case True
  with assms have "opt' = opt"
    by (auto simp: poly_lr_scheduler_def split: if_splits)
  then show ?thesis by simp
next
  case False
  from poly_lr_scheduler_fires [OF False assms] obtain v where
    "3 \<le> length (param_groups opt)" and
    "opt' = opt\<lparr>param_groups := (param_groups opt)
                    [0 := (param_groups opt ! 0)\<lparr>lr := v\<rparr>,
                     1 := (param_groups opt ! 1)\<lparr>lr := 10 * v\<rparr>,
                     2 := (param_groups opt ! 2)\<lparr>lr := 20 * v\<rparr>]\<rparr>"
    by blast
  then show ?thesis
    by (auto simp: length3_Cons nth_Cons split: nat.splits)
qed

text \<open>
  Witness for C9: the firing call at iteration 0 changes the three rates and leaves the weight
  decay of each of the three groups as it was.
\<close>

theorem scheduler_frame_witness:
  "poly_lr_scheduler opt3 (1/10) 0 1 10 1 =
     Inr (opt3\<lparr>param_groups := [group0\<lparr>lr := 1 / 10\<rparr>, group0\<lparr>lr := 1\<rparr>, group0\<lparr>lr := 2\<rparr>]\<rparr>) \<and>
   weight_decay ([group0\<lparr>lr := 1 / 10\<rparr>, group0\<lparr>lr := 1\<rparr>, group0\<lparr>lr := 2\<rparr>] ! 0)
     = weight_decay (param_groups opt3 ! 0) \<and>
   weight_decay ([group0\<lparr>lr := 1 / 10\<rparr>, group0\<lparr>lr := 1\<rparr>, group0\<lparr>lr := 2\<rparr>] ! 1)
     = weight_decay (param_groups opt3 ! 1) \<and>
   weight_decay ([group0\<lparr>lr := 1 / 10\<rparr>, group0\<lparr>lr := 1\<rparr>, group0\<lparr>lr := 2\<rparr>] ! 2)
     = weight_decay (param_groups opt3 ! 2)"
proof -
  have r: "poly_lr_scheduler opt3 (1/10) 0 1 10 1 =
     Inr (opt3\<lparr>param_groups := [group0\<lparr>lr := 1 / 10\<rparr>, group0\<lparr>lr := 1\<rparr>, group0\<lparr>lr := 2\<rparr>]\<rparr>)"
    by (simp add: poly_lr_scheduler_def skips_def new_lr_def float_pow_def set_lr_def opt3_def)
  from scheduler_frame [OF r] r show ?thesis by (simp add: opt3_def)
qed

subsection \<open>The parameter grouper\<close>

lemma get_params_deeplab:
  "get_params model_deeplab ''1x'' = [Tensor 0] \<and>
   get_params model_deeplab ''10x'' = [Tensor 1, Tensor 3] \<and>
   get_params model_deeplab ''20x'' = [Tensor 2, Tensor 4]"
  by (simp add: get_params_def model_deeplab_def sublist_code(3))

lemma set_parameters_slot: "set (parameters md) = set (slot md)"
  by (cases md rule: parameters.cases) (auto simp: slot_def)

lemma set_weight_slot: "set (weight md) \<subseteq> set (slot md)"
  by (simp add: slot_def)

lemma Tensor_bias_slot: "Tensor n \<in> set (bias md) \<Longrightarrow> Tensor n \<in> set (slot md)"
  by (simp add: slot_def)

lemma weight_bias_distinct:
  "distinct (slot md) \<Longrightarrow> x \<in> set (weight md) \<Longrightarrow> x \<in> set (bias md) \<Longrightarrow> False"
  by (cases md) (auto simp: slot_def)

lemma slots_same_module:
  "distinct (slots model) \<Longrightarrow> m1 \<in> set model \<Longrightarrow> m2 \<in> set model \<Longrightarrow>
     x \<in> set (slot (snd m1)) \<Longrightarrow> x \<in> set (slot (snd m2)) \<Longrightarrow> m1 = m2"
  unfolding slots_def
  by (induction model) auto

lemma slots_distinct_slot:
  "distinct (slots model) \<Longrightarrow> m \<in> set model \<Longrightarrow> distinct (slot (snd m))"
  unfolding slots_def
  by (induction model) auto

lemma tensors_1x:
  "n \<in> tensors (get_params model ''1x'') \<Longrightarrow>
     \<exists>m \<in> set model. sublist ''layer'' (fst m) \<and> is_Conv2d (snd m) \<and> Tensor n \<in> set (slot (snd m))"
  unfolding tensors_def get_params_def
  by (simp add: set_parameters_slot) (metis fst_conv snd_conv)

lemma tensors_10x:
  "n \<in> tensors (get_params model ''10x'') \<Longrightarrow>
     \<exists>m \<in> set model. sublist ''aspp'' (fst m) \<and> is_Conv2d (snd m) \<and> Tensor n \<in> set (weight (snd m))"
  unfolding tensors_def get_params_def
  by simp (metis fst_conv snd_conv)

lemma tensors_20x:
  "n \<in> tensors (get_params model ''20x'') \<Longrightarrow>
     \<exists>m \<in> set model. sublist ''aspp'' (fst m) \<and> is_Conv2d (snd m) \<and> Tensor n \<in> set (bias (snd m))"
  unfolding tensors_def get_params_def
  by simp (metis fst_conv snd_conv)

text \<open>
  Claim C8, as amended. For a model in which no convolution has both \<^verbatim>\<open>layer\<close> and \<^verbatim>\<open>aspp\<close> in
  its qualified name and no tensor fills two parameter slots, the sequences for the keys
  \<^verbatim>\<open>1x\<close>, \<^verbatim>\<open>10x\<close> and \<^verbatim>\<open>20x\<close> have pairwise no tensor in common. For every model, a key
  that no module matches gives the empty sequence; \<open>get_params\<close> has no error result.
\<close>

theorem get_params_disjoint:
  "((\<forall>m \<in> set model. is_Conv2d (snd m) \<longrightarrow>
        \<not> (sublist ''layer'' (fst m) \<and> sublist ''aspp'' (fst m))) \<and>
    distinct (slots model) \<longrightarrow>
      tensors (get_params model ''1x'') \<inter> tensors (get_params model ''10x'') = {} \<and>
      tensors (get_params model ''1x'') \<inter> tensors (get_params model ''20x'') = {} \<and>
      tensors (get_params model ''10x'') \<inter> tensors (get_params model ''20x'') = {}) \<and>
   ((\<forall>m \<in> set model. \<not> (sublist ''layer'' (fst m) \<and> is_Conv2d (snd m))) \<longrightarrow>
      get_params model ''1x'' = []) \<and>
   ((\<forall>m \<in> set model. \<not> (sublist ''aspp'' (fst m) \<and> is_Conv2d (snd m))) \<longrightarrow>
      get_params model ''10x'' = [] \<and> get_params model ''20x'' = [])"
proof (intro conjI impI)
  assume h: "(\<forall>m \<in> set model. is_Conv2d (snd m) \<longrightarrow>
        \<not> (sublist ''layer'' (fst m) \<and> sublist ''aspp'' (fst m))) \<and> distinct (slots model)"
  show "tensors (get_params model ''1x'') \<inter> tensors (get_params model ''10x'') = {}"
  proof (rule ccontr)
    assume "tensors (get_params model ''1x'') \<inter> tensors (get_params model ''10x'') \<noteq> {}"
    then obtain n where "n \<in> tensors (get_params model ''1x'')"
      and "n \<in> tensors (get_params model ''10x'')" by blast
    then obtain m1 m2 where m1: "m1 \<in> set model" "sublist ''layer'' (fst m1)" "is_Conv2d (snd m1)"
        "Tensor n \<in> set (slot (snd m1))"
      and m2: "m2 \<in> set model" "sublist ''aspp'' (fst m2)" "Tensor n \<in> set (weight (snd m2))"
      using tensors_1x tensors_10x by blast
    from m2 set_weight_slot have "Tensor n \<in> set (slot (snd m2))" by blast
    with h m1 m2 have "m1 = m2" by (blast intro: slots_same_module)
    with h m1 m2 show False by blast
  qed
  show "tensors (get_params model ''1x'') \<inter> tensors (get_params model ''20x'') = {}"
  proof (rule ccontr)
    assume "tensors (get_params model ''1x'') \<inter> tensors (get_params model ''20x'') \<noteq> {}"
    then obtain n where "n \<in> tensors (get_params model ''1x'')"
      and "n \<in> tensors (get_params model ''20x'')" by blast
    then obtain m1 m2 where m1: "m1 \<in> set model" "sublist ''layer'' (fst m1)" "is_Conv2d (snd m1)"
        "Tensor n \<in> set (slot (snd m1))"
      and m2: "m2 \<in> set model" "sublist ''aspp'' (fst m2)" "Tensor n \<in> set (bias (snd m2))"
      using tensors_1x tensors_20x by blast
    from m2 Tensor_bias_slot have "Tensor n \<in> set (slot (snd m2))" by blast
    with h m1 m2 have "m1 = m2" by (blast intro: slots_same_module)
    with h m1 m2 show False by blast
  qed
  show "tensors (get_params model ''10x'') \<inter> tensors (get_params model ''20x'') = {}"
  proof (rule ccontr)
    assume "tensors (get_params model ''10x'') \<inter> tensors (get_params model ''20x'') \<noteq> {}"
    then obtain n where "n \<in> tensors (get_params model ''10x'')"
      and "n \<in> tensors (get_params model ''20x'')" by blast
    then obtain m1 m2 where m1: "m1 \<in> set model" "Tensor n \<in> set (weight (snd m1))"
      and m2: "m2 \<in> set model" "Tensor n \<in> set (bias (snd m2))"
      using tensors_10x tensors_20x by blast
    from m1 set_weight_slot have s1: "Tensor n \<in> set (slot (snd m1))" by blast
    from m2 Tensor_bias_slot have "Tensor n \<in> set (slot (snd m2))" by blast
    with h m1 m2 s1 have "m1 = m2" by (blast intro: slots_same_module)
    moreover from h m1 have "distinct (slot (snd m1))" by (blast intro: slots_distinct_slot)
    ultimately show False using m1 m2 weight_bias_distinct by blast
  qed
next
  assume "\<forall>m \<in> set model. \<not> (sublist ''layer'' (fst m) \<and> is_Conv2d (snd m))"
  then have "filter (\<lambda>m. sublist ''layer'' (fst m) \<and> is_Conv2d (snd m)) model = []"
    by (simp add: filter_empty_conv)
  then show "get_params model ''1x'' = []" by (simp add: get_params_def)
next
  assume a: "\<forall>m \<in> set model. \<not> (sublist ''aspp'' (fst m) \<and> is_Conv2d (snd m))"
  then have f: "filter (\<lambda>m. sublist ''aspp'' (fst m) \<and> is_Conv2d (snd m)) model = []"
    by (simp add: filter_empty_conv)
  then show "get_params model ''10x'' = []" by (simp add: get_params_def)
  from f show "get_params model ''20x'' = []" by (simp add: get_params_def)
qed

text \<open>
  Witness for C8: the DeepLab naming gives the groups [0], [1, 3] and [2, 4]; the model
  without ASPP modules gives empty sequences for \<^verbatim>\<open>10x\<close> and \<^verbatim>\<open>20x\<close>.
\<close>

theorem get_params_disjoint_witness:
  "distinct (slots model_deeplab) \<and>
   get_params model_deeplab ''1x'' = [Tensor 0] \<and>
   get_params model_deeplab ''10x'' = [Tensor 1, Tensor 3] \<and>
   get_params model_deeplab ''20x'' = [Tensor 2, Tensor 4] \<and>
   tensors (get_params model_deeplab ''1x'') \<inter> tensors (get_params model_deeplab ''10x'') = {} \<and>
   tensors (get_params model_deeplab ''1x'') \<inter> tensors (get_params model_deeplab ''20x'') = {} \<and>
   tensors (get_params model_deeplab ''10x'') \<inter> tensors (get_params model_deeplab ''20x'') = {} \<and>
   get_params model_no_aspp ''1x'' = [Tensor 0, Tensor 1] \<and>
   get_params model_no_aspp ''10x'' = [] \<and> get_params model_no_aspp ''20x'' = []"
proof -
  have h: "(\<forall>m \<in> set model_deeplab. is_Conv2d (snd m) \<longrightarrow>
        \<not> (sublist ''layer'' (fst m) \<and> sublist ''aspp'' (fst m))) \<and> distinct (slots model_deeplab)"
    by (simp add: model_deeplab_def slots_def slot_def sublist_code(3))
  have n: "\<forall>m \<in> set model_no_aspp. \<not> (sublist ''aspp'' (fst m) \<and> is_Conv2d (snd m))"
    by (simp add: model_no_aspp_def sublist_code(3))
  have g: "get_params model_no_aspp ''1x'' = [Tensor 0, Tensor 1]"
    by (simp add: get_params_def model_no_aspp_def sublist_code(3))
  from h n g get_params_deeplab get_params_disjoint [of model_deeplab]
    get_params_disjoint [of model_no_aspp]
  show ?thesis by simp
qed

text \<open>
  Counterexample to C8 as stated: a convolution named \<^verbatim>\<open>layer5.aspp.c0\<close> matches both
  substring tests, so its weight is in the groups \<^verbatim>\<open>1x\<close> and \<^verbatim>\<open>10x\<close> and its bias in the groups
  \<^verbatim>\<open>1x\<close> and \<^verbatim>\<open>20x\<close>.
\<close>

theorem get_params_disjoint_counterexample:
  "get_params model_overlap ''1x'' = [Tensor 0, Tensor 1] \<and>
   get_params model_overlap ''10x'' = [Tensor 0] \<and>
   get_params model_overlap ''20x'' = [Tensor 1] \<and>
   tensors (get_params model_overlap ''1x'') \<inter> tensors (get_params model_overlap ''10x'') = {0} \<and>
   tensors (get_params model_overlap ''1x'') \<inter> tensors (get_params model_overlap ''20x'') = {1}"
  by (auto simp: get_params_def model_overlap_def sublist_code(3) tensors_def)

subsection \<open>The training loop\<close>

lemma and_then_Inr: "and_then m f = Inr y \<longleftrightarrow> (\<exists>a. m = Inr a \<and> f a = Inr y)"
  by (cases m) simp_all

lemma for_each_append:
  "for_each body st (xs @ ys) = and_then (for_each body st xs) (\<lambda>s. for_each body s ys)"
proof (induction xs arbitrary: st)
  case Nil
  show ?case by simp
next
  case (Cons i xs)
  show ?case
  proof (cases "body st i")
    case (Inl x)
    then show ?thesis by simp
  next
    case (Inr s)
    with Cons show ?thesis by simp
  qed
qed

lemma pull_Inr:
  assumes "pull e st = Inr (b, s1)"
  shows "optimizer s1 = optimizer st \<and> weights s1 = weights st \<and> grad s1 = grad st \<and>
         now s1 = now st \<and> loss_meter s1 = loss_meter st \<and> tb s1 = tb st \<and>
         files s1 = files st \<and> iter_loss s1 = iter_loss st \<and>
         data_times s1 = data_times st \<and> compute_times s1 = compute_times st \<and>
         start s1 = start st \<and> end_time s1 = end_time st"
  using assms by (auto simp: pull_def split: list.splits sum.splits)

lemma fetch_Inr:
  assumes "fetch e st = Inr (b, s1)"
  shows "optimizer s1 = optimizer st \<and> weights s1 = weights st \<and> grad s1 = grad st \<and>
         loss_meter s1 = loss_meter st \<and> tb s1 = tb st \<and>
         files s1 = files st \<and> iter_loss s1 = iter_loss st \<and>
         compute_times s1 = compute_times st \<and>
         (\<exists>ds t. data_times st = Some ds \<and> data_times s1 = Some (ds @ [t]))"
proof -
  let ?s0 = "st\<lparr>start := Some (clock e (now st)), now := Suc (now st)\<rparr>"
  from assms obtain s' where p: "pull e ?s0 = Inr (b, s')"
    by (auto simp: fetch_def Let_def and_then_Inr split: option.splits)
  note q = pull_Inr [OF p]
  from assms p obtain ds where
    "data_times s' = Some ds"
    "s1 = s'\<lparr>end_time := Some (clock e (now s')), now := Suc (now s'),
              data_times := Some (ds @ [clock e (now s') - clock e (now st)])\<rparr>"
    by (auto simp: fetch_def Let_def split: option.splits)
  with q show ?thesis by simp
qed

lemma compute_Inr:
  assumes "compute cfg e b st = Inr s2"
  shows "optimizer s2 = optimizer st \<and> weights s2 = weights st \<and>
         loss_meter s2 = loss_meter st \<and> tb s2 = tb st \<and> files s2 = files st \<and>
         data_times s2 = data_times st \<and> compute_times s2 = compute_times st \<and>
         loader_iter s2 = loader_iter st \<and> epoch s2 = epoch st \<and>
         start s2 \<noteq> None \<and>
         (\<exists>ls l g. forward e (weights st) b = Inr ls \<and>
            div_loss (scales_loss ls) (ITER_SIZE cfg) = Inr l \<and>
            backward l (grad st) = Inr g \<and> grad s2 = g \<and>
            iter_loss s2 = iter_loss st + float_of l)"
  using assms by (auto simp: compute_def Let_def and_then_Inr)

lemma sub_iteration_Inr:
  assumes "sub_iteration cfg e st = Inr s2"
  shows "optimizer s2 = optimizer st \<and> weights s2 = weights st \<and>
         loss_meter s2 = loss_meter st \<and> tb s2 = tb st \<and> files s2 = files st \<and>
         compute_times s2 = compute_times st \<and> start s2 \<noteq> None \<and>
         (\<exists>ds t. data_times st = Some ds \<and> data_times s2 = Some (ds @ [t]))"
proof -
  from assms obtain b s1 where f: "fetch e st = Inr (b, s1)" and c: "compute cfg e b s1 = Inr s2"
    by (auto simp: sub_iteration_def and_then_Inr)
  from fetch_Inr [OF f] compute_Inr [OF c] show ?thesis by auto
qed

lemma poly_lr_scheduler_keeps:
  assumes "poly_lr_scheduler opt init_lr iter lr_decay_iter max_iter pw = Inr opt'"
  shows "map weight_decay (param_groups opt') = map weight_decay (param_groups opt) \<and>
         map params (param_groups opt') = map params (param_groups opt) \<and>
         map momentum (param_groups opt') = map momentum (param_groups opt) \<and>
         buffers opt' = buffers opt"
proof (cases "skips iter lr_decay_iter max_iter")
  case True
  with assms have "opt' = opt"
    by (auto simp: poly_lr_scheduler_def split: if_splits)
  then show ?thesis by simp
next
  case False
  from poly_lr_scheduler_fires [OF False assms] show ?thesis
    by (auto simp: length3_Cons)
qed

lemma sub_iterations_Inr:
  assumes "for_each (\<lambda>s (i::int). sub_iteration cfg e s) st xs = Inr s2"
    and "data_times st = Some ds"
  shows "optimizer s2 = optimizer st \<and> weights s2 = weights st \<and>
         loss_meter s2 = loss_meter st \<and> tb s2 = tb st \<and> files s2 = files st \<and>
         compute_times s2 = compute_times st \<and>
         (xs \<noteq> [] \<longrightarrow> start s2 \<noteq> None) \<and> (xs = [] \<longrightarrow> start s2 = start st) \<and>
         (\<exists>ts. data_times s2 = Some (ds @ ts) \<and> length ts = length xs)"
  using assms
proof (induction xs arbitrary: s2 rule: rev_induct)
  case Nil
  then show ?case by simp
next
  case (snoc i xs)
  from snoc.prems(1) obtain s1 where
    s1: "for_each (\<lambda>s (i::int). sub_iteration cfg e s) st xs = Inr s1"
    and s2: "sub_iteration cfg e s1 = Inr s2"
    by (auto simp: for_each_append and_then_Inr)
  note a = snoc.IH [OF s1 snoc.prems(2)]
  note b = sub_iteration_Inr [OF s2]
  from a obtain ts where ts: "data_times s1 = Some (ds @ ts)" "length ts = length xs" by blast
  from b ts obtain t where "data_times s2 = Some (ds @ (ts @ [t]))" by auto
  with ts have "\<exists>ts'. data_times s2 = Some (ds @ ts') \<and> length ts' = length (xs @ [i])"
    by (intro exI [of _ "ts @ [t]"]) simp
  with a b show ?case by simp
qed

lemma accumulate_Inr:
  assumes "accumulate cfg e st = Inr s2" and "data_times st = Some ds"
  shows "optimizer s2 = optimizer st \<and> weights s2 = weights st \<and>
         loss_meter s2 = loss_meter st \<and> tb s2 = tb st \<and> files s2 = files st \<and>
         compute_times s2 = compute_times st \<and>
         (0 < ITER_SIZE cfg \<longrightarrow> start s2 \<noteq> None) \<and>
         (ITER_SIZE cfg \<le> 0 \<longrightarrow> start s2 = start st) \<and>
         (\<exists>ts. data_times s2 = Some (ds @ ts) \<and> length ts = nat (ITER_SIZE cfg))"
proof -
  have "([1..ITER_SIZE cfg] \<noteq> []) = (0 < ITER_SIZE cfg)" by auto
  moreover have "([1..ITER_SIZE cfg] = []) = (ITER_SIZE cfg \<le> 0)" by auto
  moreover have "length [1..ITER_SIZE cfg] = nat (ITER_SIZE cfg)" by simp
  ultimately show ?thesis
    using sub_iterations_Inr [OF assms(1) [unfolded accumulate_def] assms(2)] by simp
qed

lemma update_Inr:
  assumes "update e st = Inr s3"
  shows "param_groups (optimizer s3) = param_groups (optimizer st) \<and>
         grad s3 = grad st \<and> tb s3 = tb st \<and> files s3 = files st \<and>
         data_times s3 = data_times st \<and> start s3 = start st \<and> start st \<noteq> None \<and>
         loss_meter s3 = iter_loss st # loss_meter st \<and>
         (\<exists>cs t. compute_times st = Some cs \<and> compute_times s3 = Some (cs @ [t]))"
proof -
  from assms obtain w m where "step e (optimizer st) (grad st) (weights st) = Inr (w, m)"
    by (cases "step e (optimizer st) (grad st) (weights st)") (auto simp: update_def Let_def)
  moreover from this assms obtain cs where "compute_times st = Some cs"
    by (cases "compute_times st") (auto simp: update_def Let_def)
  moreover from this calculation assms obtain t0 where "start st = Some t0"
    by (cases "start st") (auto simp: update_def Let_def)
  ultimately show ?thesis using assms
    by (auto simp: update_def Let_def)
qed

lemma tensorboard_Inr:
  assumes "tensorboard cfg i st = Inr s4"
  shows "optimizer s4 = optimizer st \<and> weights s4 = weights st \<and> grad s4 = grad st \<and>
         files s4 = files st \<and> loss_meter s4 = loss_meter st \<and>
         data_times s4 = data_times st \<and> compute_times s4 = compute_times st \<and>
         start s4 = start st \<and> ITER_TB cfg \<noteq> 0"
  using assms by (auto simp: tensorboard_def split: if_splits)

lemma save_history_Inr:
  assumes "save_history cfg i st = Inr s5"
  shows "optimizer s5 = optimizer st \<and> weights s5 = weights st \<and> grad s5 = grad st \<and>
         loss_meter s5 = loss_meter st \<and>
         data_times s5 = data_times st \<and> compute_times s5 = compute_times st \<and>
         start s5 = start st \<and> ITER_SAVE cfg \<noteq> 0 \<and>
         files s5 = files st @ (if i mod ITER_SAVE cfg = 0
                                then [Saved (checkpoint_path cfg i) (weights st)] else [])"
  using assms by (auto simp: save_history_def split: if_splits)

lemma save_current_eq:
  "optimizer (save_current cfg i st) = optimizer st \<and>
   weights (save_current cfg i st) = weights st \<and> grad (save_current cfg i st) = grad st \<and>
   loss_meter (save_current cfg i st) = loss_meter st \<and>
   data_times (save_current cfg i st) = data_times st \<and>
   compute_times (save_current cfg i st) = compute_times st \<and>
   start (save_current cfg i st) = start st \<and>
   files (save_current cfg i st) = files st @ (if i mod 100 = 0
                                then [Saved (current_path cfg) (weights st)] else [])"
  by (simp add: save_current_def)

lemma train_iteration_Inr:
  assumes "train_iteration cfg e st i = Inr st'"
  shows "map weight_decay (param_groups (optimizer st')) =
           map weight_decay (param_groups (optimizer st)) \<and>
         map params (param_groups (optimizer st')) = map params (param_groups (optimizer st)) \<and>
         map momentum (param_groups (optimizer st')) = map momentum (param_groups (optimizer st)) \<and>
         map path_of (files st') = map path_of (files st) @ cadence cfg [i] \<and>
         ITER_SAVE cfg \<noteq> 0 \<and> ITER_TB cfg \<noteq> 0 \<and> LR_DECAY cfg \<noteq> 0 \<and>
         (\<exists>ds c. data_times st' = Some ds \<and> length ds = nat (ITER_SIZE cfg) \<and>
                  compute_times st' = Some [c])"
proof -
  from assms obtain opt s2 s3 s4 s5 where
    sch: "poly_lr_scheduler (optimizer st) (LR cfg) (i - 1) (LR_DECAY cfg) (ITER_MAX cfg)
            (POLY_POWER cfg) = Inr opt"
    and acc: "accumulate cfg e (reset (st\<lparr>optimizer := opt\<rparr>)) = Inr s2"
    and upd: "update e s2 = Inr s3"
    and tbd: "tensorboard cfg i s3 = Inr s4"
    and sav: "save_history cfg i s4 = Inr s5"
    and cur: "st' = save_current cfg i s5"
    by (auto simp: train_iteration_def and_then_Inr)
  have dt: "data_times (reset (st\<lparr>optimizer := opt\<rparr>)) = Some []" by (simp add: reset_def)
  note k = poly_lr_scheduler_keeps [OF sch]
  note a = accumulate_Inr [OF acc dt]
  note u = update_Inr [OF upd]
  note t = tensorboard_Inr [OF tbd]
  note h = save_history_Inr [OF sav]
  note c = save_current_eq [of cfg i s5]
  from sch have d: "LR_DECAY cfg \<noteq> 0" by (auto simp: poly_lr_scheduler_def split: if_splits)
  have f0: "files (reset (st\<lparr>optimizer := opt\<rparr>)) = files st"
    and o0: "optimizer (reset (st\<lparr>optimizer := opt\<rparr>)) = opt"
    and c0: "compute_times (reset (st\<lparr>optimizer := opt\<rparr>)) = Some []"
    by (simp_all add: reset_def)
  from a u t h c cur f0 have "map path_of (files st') = map path_of (files st) @ cadence cfg [i]"
    by (simp add: cadence_def)
  moreover from a u t h c cur o0 k have
    "map weight_decay (param_groups (optimizer st')) = map weight_decay (param_groups (optimizer st))"
    "map params (param_groups (optimizer st')) = map params (param_groups (optimizer st))"
    "map momentum (param_groups (optimizer st')) = map momentum (param_groups (optimizer st))"
    by simp_all
  moreover from a u t h c cur c0 have
    "\<exists>ds c. data_times st' = Some ds \<and> length ds = nat (ITER_SIZE cfg) \<and> compute_times st' = Some [c]"
    by auto
  ultimately show ?thesis using t h d by simp
qed

lemma cadence_append: "cadence cfg (xs @ ys) = cadence cfg xs @ cadence cfg ys"
  by (simp add: cadence_def)

lemma train_iteration_start:
  assumes "train_iteration cfg e st i = Inr st'" and "start st = None"
  shows "0 < ITER_SIZE cfg"
proof -
  from assms obtain opt s2 s3 where
    acc: "accumulate cfg e (reset (st\<lparr>optimizer := opt\<rparr>)) = Inr s2"
    and upd: "update e s2 = Inr s3"
    by (auto simp: train_iteration_def and_then_Inr)
  have dt: "data_times (reset (st\<lparr>optimizer := opt\<rparr>)) = Some []" by (simp add: reset_def)
  have "start (reset (st\<lparr>optimizer := opt\<rparr>)) = None" using assms(2) by (simp add: reset_def)
  with accumulate_Inr [OF acc dt] update_Inr [OF upd] show ?thesis by auto
qed

lemma train_iteration_csv:
  assumes "train_iteration cfg e st i = Inr st'"
  shows "csv_rows (files st') = csv_rows (files st)"
proof -
  from assms obtain opt s2 s3 s4 s5 where
    acc: "accumulate cfg e (reset (st\<lparr>optimizer := opt\<rparr>)) = Inr s2"
    and upd: "update e s2 = Inr s3"
    and tbd: "tensorboard cfg i s3 = Inr s4"
    and sav: "save_history cfg i s4 = Inr s5"
    and cur: "st' = save_current cfg i s5"
    by (auto simp: train_iteration_def and_then_Inr)
  have dt: "data_times (reset (st\<lparr>optimizer := opt\<rparr>)) = Some []"
    and f0: "files (reset (st\<lparr>optimizer := opt\<rparr>)) = files st"
    by (simp_all add: reset_def)
  from accumulate_Inr [OF acc dt] update_Inr [OF upd] tensorboard_Inr [OF tbd]
    save_history_Inr [OF sav] save_current_eq [of cfg i s5] cur f0
  show ?thesis by (simp add: csv_rows_def)
qed

lemma main_loop_Inr:
  assumes "main_loop cfg e st its = Inr st'"
  shows "map weight_decay (param_groups (optimizer st')) =
           map weight_decay (param_groups (optimizer st)) \<and>
         map params (param_groups (optimizer st')) = map params (param_groups (optimizer st)) \<and>
         map momentum (param_groups (optimizer st')) = map momentum (param_groups (optimizer st)) \<and>
         map path_of (files st') = map path_of (files st) @ cadence cfg its \<and>
         csv_rows (files st') = csv_rows (files st) \<and>
         (its = [] \<longrightarrow> st' = st) \<and>
         (its \<noteq> [] \<longrightarrow> ITER_SAVE cfg \<noteq> 0 \<and> ITER_TB cfg \<noteq> 0 \<and> LR_DECAY cfg \<noteq> 0 \<and>
            (\<exists>ds c. data_times st' = Some ds \<and> length ds = nat (ITER_SIZE cfg) \<and>
                  compute_times st' = Some [c]))"
  using assms
proof (induction its arbitrary: st' rule: rev_induct)
  case Nil
  then show ?case by (simp add: main_loop_def cadence_def)
next
  case (snoc i its)
  from snoc.prems obtain s1 where
    s1: "main_loop cfg e st its = Inr s1" and s2: "train_iteration cfg e s1 i = Inr st'"
    by (auto simp: main_loop_def for_each_append and_then_Inr)
  from snoc.IH [OF s1] train_iteration_Inr [OF s2] train_iteration_csv [OF s2]
  show ?case by (simp add: cadence_append)
qed

lemma finish_Inr:
  assumes "finish cfg st = Inr st'"
  shows "optimizer st' = optimizer st \<and>
         (\<exists>ds cs. data_times st = Some ds \<and> compute_times st = Some cs \<and>
            files st' = files st @ [Csv ''logs.csv'' (zip ds cs), Saved (final_path cfg) (weights st)])"
  using assms by (auto simp: finish_def split: option.splits)

lemma main_Inr:
  assumes "main cfg e model w0 m0 = Inr st'"
  shows "0 < ITER_MAX cfg \<and> 0 < ITER_SIZE cfg \<and> ITER_SAVE cfg \<noteq> 0 \<and> ITER_TB cfg \<noteq> 0 \<and>
         LR_DECAY cfg \<noteq> 0 \<and>
         map weight_decay (param_groups (optimizer st')) = [WEIGHT_DECAY cfg, WEIGHT_DECAY cfg, 0] \<and>
         map params (param_groups (optimizer st')) =
           [get_params model ''1x'', get_params model ''10x'', get_params model ''20x''] \<and>
         map path_of (files st') =
           cadence cfg [1..ITER_MAX cfg] @ [''logs.csv'', final_path cfg] \<and>
         length (csv_rows (files st')) = 1"
proof -
  let ?s0 = "initial_state cfg e model w0 m0"
  from assms obtain s1 where
    l: "main_loop cfg e ?s0 [1..ITER_MAX cfg] = Inr s1" and f: "finish cfg s1 = Inr st'"
    by (auto simp: main_def and_then_Inr)
  note m = main_loop_Inr [OF l]
  note n = finish_Inr [OF f]
  have i0: "data_times ?s0 = None" "start ?s0 = None" "files ?s0 = []"
    "map weight_decay (param_groups (optimizer ?s0)) = [WEIGHT_DECAY cfg, WEIGHT_DECAY cfg, 0]"
    "map params (param_groups (optimizer ?s0)) =
           [get_params model ''1x'', get_params model ''10x'', get_params model ''20x'']"
    by (simp_all add: initial_state_def SGD_groups_def)
  have ne: "[1..ITER_MAX cfg] \<noteq> []"
  proof
    assume "[1..ITER_MAX cfg] = []"
    with m have "s1 = ?s0" by simp
    with n i0 show False by auto
  qed
  then have pos: "0 < ITER_MAX cfg" by auto
  then have "[1..ITER_MAX cfg] = 1 # [2..ITER_MAX cfg]" by (simp add: upto_rec1)
  with l obtain s where "train_iteration cfg e ?s0 1 = Inr s"
    by (auto simp: main_loop_def and_then_Inr)
  from train_iteration_start [OF this i0(2)] have sz: "0 < ITER_SIZE cfg" .
  from m ne obtain ds c where dc: "data_times s1 = Some ds" "length ds = nat (ITER_SIZE cfg)"
    "compute_times s1 = Some [c]" by auto
  from n dc have fs: "files st' = files s1 @ [Csv ''logs.csv'' (zip ds [c]), Saved (final_path cfg) (weights s1)]"
    by auto
  from m i0 have "csv_rows (files s1) = []" by (simp add: csv_rows_def)
  with fs have "csv_rows (files st') = zip ds [c]" by (simp add: csv_rows_def)
  moreover from dc sz have "length (zip ds [c]) = 1" by simp
  ultimately have "length (csv_rows (files st')) = 1" by simp
  moreover from fs m i0 have "map path_of (files st') =
           cadence cfg [1..ITER_MAX cfg] @ [''logs.csv'', final_path cfg]" by simp
  ultimately show ?thesis using m n i0 ne pos sz by simp
qed

text \<open>
  Claim C10. The optimizer is constructed with the configured weight decay for the base and
  the ASPP-weight group and with weight decay 0 for the ASPP-bias group, whose parameters are
  the sequence of key \<^verbatim>\<open>20x\<close>. An outer iteration that completes leaves every group's weight
  decay as it was, so after any number of outer iterations, and at the end of a completed
  run, the weight decays are still the configured value, the configured value and 0.
\<close>

theorem aspp_bias_never_decayed:
  "map weight_decay (param_groups (optimizer (initial_state cfg e model w0 m0))) =
     [WEIGHT_DECAY cfg, WEIGHT_DECAY cfg, 0] \<and>
   map params (param_groups (optimizer (initial_state cfg e model w0 m0))) =
     [get_params model ''1x'', get_params model ''10x'', get_params model ''20x''] \<and>
   (train_iteration cfg e st i = Inr st1 \<longrightarrow>
      map weight_decay (param_groups (optimizer st1)) =
        map weight_decay (param_groups (optimizer st))) \<and>
   (main_loop cfg e (initial_state cfg e model w0 m0) its = Inr st2 \<longrightarrow>
      map weight_decay (param_groups (optimizer st2)) = [WEIGHT_DECAY cfg, WEIGHT_DECAY cfg, 0] \<and>
      params (param_groups (optimizer st2) ! 2) = get_params model ''20x'') \<and>
   (main cfg e model w0 m0 = Inr st3 \<longrightarrow>
      map weight_decay (param_groups (optimizer st3)) = [WEIGHT_DECAY cfg, WEIGHT_DECAY cfg, 0] \<and>
      params (param_groups (optimizer st3) ! 2) = get_params model ''20x'')"
proof (intro conjI impI)
  let ?s0 = "initial_state cfg e model w0 m0"
  show i1: "map weight_decay (param_groups (optimizer ?s0)) = [WEIGHT_DECAY cfg, WEIGHT_DECAY cfg, 0]"
    and i2: "map params (param_groups (optimizer ?s0)) =
     [get_params model ''1x'', get_params model ''10x'', get_params model ''20x'']"
    by (simp_all add: initial_state_def SGD_groups_def)
  {
    assume "train_iteration cfg e st i = Inr st1"
    from train_iteration_Inr [OF this]
    show "map weight_decay (param_groups (optimizer st1)) =
        map weight_decay (param_groups (optimizer st))" by simp
  }
  {
    assume "main_loop cfg e ?s0 its = Inr st2"
    note m = main_loop_Inr [OF this]
    from m i1 show "map weight_decay (param_groups (optimizer st2)) =
        [WEIGHT_DECAY cfg, WEIGHT_DECAY cfg, 0]" by simp
    from m i2 have p: "map params (param_groups (optimizer st2)) =
       [get_params model ''1x'', get_params model ''10x'', get_params model ''20x'']" by simp
    then have "length (param_groups (optimizer st2)) = 3"
      by (metis length_map length_Cons list.size(3) numeral_3_eq_3)
    then have "map params (param_groups (optimizer st2)) ! 2 = params (param_groups (optimizer st2) ! 2)"
      by simp
    with p show "params (param_groups (optimizer st2) ! 2) = get_params model ''20x''" by simp
  }
  {
    assume "main cfg e model w0 m0 = Inr st3"
    note m = main_Inr [OF this]
    from m show "map weight_decay (param_groups (optimizer st3)) =
        [WEIGHT_DECAY cfg, WEIGHT_DECAY cfg, 0]" by simp
    from m have p: "map params (param_groups (optimizer st3)) =
       [get_params model ''1x'', get_params model ''10x'', get_params model ''20x'']" by simp
    then have "length (param_groups (optimizer st3)) = 3"
      by (metis length_map length_Cons list.size(3) numeral_3_eq_3)
    then have "map params (param_groups (optimizer st3)) ! 2 = params (param_groups (optimizer st3) ! 2)"
      by simp
    with p show "params (param_groups (optimizer st3) ! 2) = get_params model ''20x''" by simp
  }
qed

lemma run0_returns: "\<exists>st. main cfg0 env0 model_deeplab 0 () = Inr st"
proof -
  have "(case main cfg0 env0 model_deeplab 0 () of Inl x \<Rightarrow> False | Inr st \<Rightarrow> True)"
    by code_simp
  then show ?thesis by (cases "main cfg0 env0 model_deeplab 0 ()") simp_all
qed

text \<open>
  Witness for C10: the example run completes; after its first iteration, after both
  iterations and at its end the weight decays are 1/2000, 1/2000 and 0.
\<close>

theorem aspp_bias_never_decayed_witness:
  "\<exists>st1 st2 st3.
     train_iteration cfg0 env0 (initial_state cfg0 env0 model_deeplab 0 ()) 1 = Inr st1 \<and>
     map weight_decay (param_groups (optimizer st1)) = [1 / 2000, 1 / 2000, 0] \<and>
     main_loop cfg0 env0 (initial_state cfg0 env0 model_deeplab 0 ()) [1, 2] = Inr st2 \<and>
     map weight_decay (param_groups (optimizer st2)) = [1 / 2000, 1 / 2000, 0] \<and>
     params (param_groups (optimizer st2) ! 2) = [Tensor 2, Tensor 4] \<and>
     main cfg0 env0 model_deeplab 0 () = Inr st3 \<and>
     map weight_decay (param_groups (optimizer st3)) = [1 / 2000, 1 / 2000, 0] \<and>
     params (param_groups (optimizer st3) ! 2) = [Tensor 2, Tensor 4]"
proof -
  let ?s0 = "initial_state cfg0 env0 model_deeplab 0 ()"
  from run0_returns obtain st3 where m: "main cfg0 env0 model_deeplab 0 () = Inr st3" by blast
  have r: "[1..ITER_MAX cfg0] = [1, 2]" by (simp add: cfg0_def upto_rec1)
  from m r obtain st2 where l: "main_loop cfg0 env0 ?s0 [1, 2] = Inr st2"
    by (auto simp: main_def and_then_Inr)
  then obtain st1 where t: "train_iteration cfg0 env0 ?s0 1 = Inr st1"
    by (auto simp: main_loop_def and_then_Inr)
  have g: "get_params model_deeplab ''20x'' = [Tensor 2, Tensor 4]"
    using get_params_deeplab by simp
  from aspp_bias_never_decayed [of cfg0 env0 model_deeplab 0 "()" ?s0 1 st1 "[1, 2]" st2 st3]
    m l t g
  have "map weight_decay (param_groups (optimizer st1)) = [1 / 2000, 1 / 2000, 0] \<and>
     map weight_decay (param_groups (optimizer st2)) = [1 / 2000, 1 / 2000, 0] \<and>
     params (param_groups (optimizer st2) ! 2) = [Tensor 2, Tensor 4] \<and>
     map weight_decay (param_groups (optimizer st3)) = [1 / 2000, 1 / 2000, 0] \<and>
     params (param_groups (optimizer st3) ! 2) = [Tensor 2, Tensor 4]"
    by (simp add: cfg0_def)
  with m l t show ?thesis
    by (intro exI [of _ st1] exI [of _ st2] exI [of _ st3]) simp
qed

text \<open>
  Every completed run leaves exactly one row in \<^verbatim>\<open>logs.csv\<close>: both timing lists are reset at
  the head of every outer iteration, the compute time is appended once per outer iteration,
  and \<^verbatim>\<open>zip\<close> stops at the shorter list.
\<close>

lemma logs_csv_one_row:
  "main cfg e model w0 m0 = Inr st' \<Longrightarrow> length (csv_rows (files st')) = 1"
  by (simp add: main_Inr)

text \<open>
  Claim C6 (one row of \<^verbatim>\<open>logs.csv\<close> per sub-iteration of the run, \<open>iter_max * iter_size\<close> rows)
  fails on the code. The example run has 2 outer iterations of 2 sub-iterations, hence 4
  sub-iterations; it completes, and the rows written are the single pair (1, 1).
\<close>

theorem logs_csv_example:
  "ITER_MAX cfg0 * ITER_SIZE cfg0 = 4 \<and>
   (case main cfg0 env0 model_deeplab 0 () of
      Inl x \<Rightarrow> False
    | Inr st \<Rightarrow> csv_rows (files st) = [(1, 1)])"
proof -
  have "(case main cfg0 env0 model_deeplab 0 () of
      Inl x \<Rightarrow> False
    | Inr st \<Rightarrow> csv_rows (files st) = [(1, 1)])"
    by code_simp
  then show ?thesis by (simp add: cfg0_def)
qed

subsection \<open>The data pull and exceptions\<close>

text \<open>
  Claim C4, as amended. During a sub-iteration's data pull, a \<^verbatim>\<open>next\<close> that yields a batch
  delivers it. When the first \<^verbatim>\<open>next\<close> raises, be it the exhaustion of the iterator or any
  other exception, the iterator is restarted and \<^verbatim>\<open>next\<close> is called once more: when that call
  yields a batch, the pull delivers it and nothing surfaces; when it raises (the exhaustion
  of an empty loader included), that exception surfaces. An exception of the forward pass,
  the loss, the backward pass or the optimizer step makes the sub-iteration, the loop over
  the sub-iterations, the outer iteration and the whole run end with that exception: nothing
  is retried.
\<close>

theorem pull_recovery_and_fatal_errors:
  "(loader_iter st = Inr b # rest \<longrightarrow> pull e st = Inr (b, st\<lparr>loader_iter := rest\<rparr>)) \<and>
   (loader_iter st = [] \<or> (\<exists>x r. loader_iter st = Inl x # r) \<longrightarrow>
      pull e st =
        (case loader e (epoch st) of
           Inr b' # rest' \<Rightarrow> Inr (b', st\<lparr>loader_iter := rest', epoch := Suc (epoch st)\<rparr>)
         | Inl x # rest' \<Rightarrow> Inl x
         | [] \<Rightarrow> Inl StopIteration)) \<and>
   (fetch e s = Inr (b1, s1) \<and> forward e (weights s1) b1 = Inl x1 \<longrightarrow>
      sub_iteration cfg e s = Inl x1) \<and>
   (fetch e s = Inr (b1, s1) \<and> compute cfg e b1 s1 = Inl x1 \<longrightarrow>
      sub_iteration cfg e s = Inl x1) \<and>
   (step e (optimizer s2) (grad s2) (weights s2) = Inl x2 \<longrightarrow> update e s2 = Inl x2) \<and>
   (for_each (\<lambda>s (i::int). sub_iteration cfg e s) s3 pre = Inr s4 \<and>
    sub_iteration cfg e s4 = Inl x3 \<and> [1..ITER_SIZE cfg] = pre @ k # post \<longrightarrow>
      accumulate cfg e s3 = Inl x3) \<and>
   (poly_lr_scheduler (optimizer s5) (LR cfg) (i - 1) (LR_DECAY cfg) (ITER_MAX cfg)
       (POLY_POWER cfg) = Inr opt \<and>
    (accumulate cfg e (reset (s5\<lparr>optimizer := opt\<rparr>)) = Inl x4 \<or>
     (\<exists>s6. accumulate cfg e (reset (s5\<lparr>optimizer := opt\<rparr>)) = Inr s6 \<and> update e s6 = Inl x4)) \<longrightarrow>
      train_iteration cfg e s5 i = Inl x4) \<and>
   (main_loop cfg e (initial_state cfg e model w0 m0) pre' = Inr s7 \<and>
    train_iteration cfg e s7 j = Inl x5 \<and> [1..ITER_MAX cfg] = pre' @ j # post' \<longrightarrow>
      main cfg e model w0 m0 = Inl x5)"
proof (intro conjI impI)
  assume "loader_iter st = Inr b # rest"
  then show "pull e st = Inr (b, st\<lparr>loader_iter := rest\<rparr>)" by (simp add: pull_def)
next
  assume "loader_iter st = [] \<or> (\<exists>x r. loader_iter st = Inl x # r)"
  then show "pull e st =
        (case loader e (epoch st) of
           Inr b' # rest' \<Rightarrow> Inr (b', st\<lparr>loader_iter := rest', epoch := Suc (epoch st)\<rparr>)
         | Inl x # rest' \<Rightarrow> Inl x
         | [] \<Rightarrow> Inl StopIteration)"
    by (auto simp: pull_def)
next
  assume "fetch e s = Inr (b1, s1) \<and> forward e (weights s1) b1 = Inl x1"
  then show "sub_iteration cfg e s = Inl x1"
    by (simp add: sub_iteration_def compute_def)
next
  assume "fetch e s = Inr (b1, s1) \<and> compute cfg e b1 s1 = Inl x1"
  then show "sub_iteration cfg e s = Inl x1"
    by (simp add: sub_iteration_def)
next
  assume "step e (optimizer s2) (grad s2) (weights s2) = Inl x2"
  then show "update e s2 = Inl x2" by (simp add: update_def)
next
  assume "for_each (\<lambda>s (i::int). sub_iteration cfg e s) s3 pre = Inr s4 \<and>
    sub_iteration cfg e s4 = Inl x3 \<and> [1..ITER_SIZE cfg] = pre @ k # post"
  then show "accumulate cfg e s3 = Inl x3"
    by (simp add: accumulate_def for_each_append)
next
  assume "poly_lr_scheduler (optimizer s5) (LR cfg) (i - 1) (LR_DECAY cfg) (ITER_MAX cfg)
       (POLY_POWER cfg) = Inr opt \<and>
    (accumulate cfg e (reset (s5\<lparr>optimizer := opt\<rparr>)) = Inl x4 \<or>
     (\<exists>s6. accumulate cfg e (reset (s5\<lparr>optimizer := opt\<rparr>)) = Inr s6 \<and> update e s6 = Inl x4))"
  then show "train_iteration cfg e s5 i = Inl x4"
    by (auto simp: train_iteration_def)
next
  assume "main_loop cfg e (initial_state cfg e model w0 m0) pre' = Inr s7 \<and>
    train_iteration cfg e s7 j = Inl x5 \<and> [1..ITER_MAX cfg] = pre' @ j # post'"
  then show "main cfg e model w0 m0 = Inl x5"
    by (simp add: main_def main_loop_def for_each_append)
qed

text \<open>
  Counterexample to C4 as stated. With an empty loader the first pull finds the iterator
  exhausted, restarts it and finds it exhausted again: \<^verbatim>\<open>StopIteration\<close> surfaces and ends the
  run. With a loader whose first iterator raises a loading error on its second \<^verbatim>\<open>next\<close>, that
  error, which is not an exhaustion, is not fatal: the pull delivers the first batch of a
  new iterator and the run completes.
\<close>

theorem pull_recovery_and_fatal_errors_counterexample:
  "main cfg0 env_empty model_deeplab 0 () = Inl StopIteration \<and>
   loader_iter (initial_state cfg0 env_empty model_deeplab 0 ()) = [] \<and>
   pull env_empty (initial_state cfg0 env_empty model_deeplab 0 ()) = Inl StopIteration \<and>
   pull env_ioerror ((initial_state cfg0 env_ioerror model_deeplab 0 ())
        \<lparr>loader_iter := [Inl (Raised 5), Inr 2]\<rparr>) =
     Inr (3, (initial_state cfg0 env_ioerror model_deeplab 0 ())\<lparr>loader_iter := [Inr 4], epoch := 2\<rparr>) \<and>
   (case main cfg0 env_ioerror model_deeplab 0 () of
      Inl x \<Rightarrow> False
    | Inr st \<Rightarrow> loss_meter st = [9 / 2, 5 / 2])"
proof -
  have "main cfg0 env_empty model_deeplab 0 () = Inl StopIteration" by code_simp
  moreover have "(case main cfg0 env_ioerror model_deeplab 0 () of
      Inl x \<Rightarrow> False
    | Inr st \<Rightarrow> loss_meter st = [9 / 2, 5 / 2])" by code_simp
  ultimately show ?thesis
    by (simp add: pull_def initial_state_def env_empty_def env_ioerror_def env0_def)
qed

text \<open>
  Witness for C4: in the example run a pull from the fresh iterator delivers batch 0, a pull
  from an exhausted iterator restarts it and delivers batch 0 of the second epoch, and with
  a forward pass that raises on batch 1 the first outer iteration and the run end with that
  exception.
\<close>

theorem pull_recovery_and_fatal_errors_witness:
  "pull env0 (initial_state cfg0 env0 model_deeplab 0 ()) =
     Inr (0, (initial_state cfg0 env0 model_deeplab 0 ())\<lparr>loader_iter := [Inr 1, Inr 2]\<rparr>) \<and>
   pull env0 ((initial_state cfg0 env0 model_deeplab 0 ())\<lparr>loader_iter := []\<rparr>) =
     Inr (0, (initial_state cfg0 env0 model_deeplab 0 ())\<lparr>loader_iter := [Inr 1, Inr 2], epoch := 2\<rparr>) \<and>
   train_iteration cfg0 env_shape (initial_state cfg0 env_shape model_deeplab 0 ()) 1 = Inl (Raised 7) \<and>
   main cfg0 env_shape model_deeplab 0 () = Inl (Raised 7)"
proof -
  let ?s0 = "initial_state cfg0 env0 model_deeplab 0 ()"
  let ?s7 = "initial_state cfg0 env_shape model_deeplab 0 ()"
  have a: "loader_iter ?s0 = Inr 0 # [Inr 1, Inr 2]"
    by (simp add: initial_state_def env0_def)
  have b: "loader_iter (?s0\<lparr>loader_iter := []\<rparr>) = [] \<or>
     (\<exists>x r. loader_iter (?s0\<lparr>loader_iter := []\<rparr>) = Inl x # r)" by simp
  have c: "train_iteration cfg0 env_shape ?s7 1 = Inl (Raised 7)" by code_simp
  have d: "main_loop cfg0 env_shape ?s7 [] = Inr ?s7 \<and>
    train_iteration cfg0 env_shape ?s7 1 = Inl (Raised 7) \<and> [1..ITER_MAX cfg0] = [] @ 1 # [2]"
    using c by (simp add: main_loop_def cfg0_def upto_rec1)
  note t1 = pull_recovery_and_fatal_errors [where st = ?s0 and b = 0
      and rest = "[Inr 1, Inr 2]" and e = env0, THEN conjunct1]
  from t1 a have 1: "pull env0 ?s0 = Inr (0, ?s0\<lparr>loader_iter := [Inr 1, Inr 2]\<rparr>)"
    by (rule mp)
  note t2 = pull_recovery_and_fatal_errors [where st = "?s0\<lparr>loader_iter := []\<rparr>"
      and e = env0, THEN conjunct2, THEN conjunct1]
  from t2 b have "pull env0 (?s0\<lparr>loader_iter := []\<rparr>) =
        (case loader env0 (epoch (?s0\<lparr>loader_iter := []\<rparr>)) of
           Inr b' # rest' \<Rightarrow> Inr (b', ?s0\<lparr>loader_iter := [], loader_iter := rest',
               epoch := Suc (epoch (?s0\<lparr>loader_iter := []\<rparr>))\<rparr>)
         | Inl x # rest' \<Rightarrow> Inl x
         | [] \<Rightarrow> Inl StopIteration)" by (rule mp)
  then have 2: "pull env0 (?s0\<lparr>loader_iter := []\<rparr>) =
     Inr (0, ?s0\<lparr>loader_iter := [Inr 1, Inr 2], epoch := 2\<rparr>)"
    by (simp add: env0_def initial_state_def)
  note t3 = pull_recovery_and_fatal_errors [where e = env_shape and cfg = cfg0 and pre' = "[]"
      and ?s7.0 = ?s7 and j = 1 and post' = "[2]" and ?x5.0 = "Raised 7" and model = model_deeplab
      and ?w0.0 = 0 and ?m0.0 = "()", THEN conjunct2, THEN conjunct2, THEN conjunct2,
      THEN conjunct2, THEN conjunct2, THEN conjunct2, THEN conjunct2]
  from t3 d have 3: "main cfg0 env_shape model_deeplab 0 () = Inl (Raised 7)" by (rule mp)
  from 1 2 3 c show ?thesis by simp
qed

subsection \<open>Gradient accumulation\<close>

lemma foldl_add_loss_Scalar:
  "foldl add_loss (Scalar a ga) ls = Scalar (a + sum_list (map fst ls)) (ga + sum_list (map snd ls))"
  by (induction ls arbitrary: a ga) (auto simp: add.assoc)

lemma scales_loss_Cons:
  "ls \<noteq> [] \<Longrightarrow> scales_loss ls = Scalar (fst (summed ls)) (snd (summed ls))"
  by (cases ls) (auto simp: scales_loss_def summed_def foldl_add_loss_Scalar)

lemma scales_loss_Nil: "scales_loss [] = PyInt 0"
  by (simp add: scales_loss_def)

lemma compute_divides:
  assumes "compute cfg e b s1 = Inr s2"
  shows "\<exists>ls. forward e (weights s1) b = Inr ls \<and> ls \<noteq> [] \<and>
           grad s2 = grad s1 + snd (summed ls) /\<^sub>R real_of_int (ITER_SIZE cfg) \<and>
           iter_loss s2 = iter_loss s1 + fst (summed ls) / real_of_int (ITER_SIZE cfg)"
proof -
  from compute_Inr [OF assms] obtain ls l g where
    f: "forward e (weights s1) b = Inr ls"
    and d: "div_loss (scales_loss ls) (ITER_SIZE cfg) = Inr l"
    and b: "backward l (grad s1) = Inr g" "grad s2 = g"
    and i: "iter_loss s2 = iter_loss s1 + float_of l"
    by blast
  have ne: "ls \<noteq> []"
  proof
    assume "ls = []"
    with d b show False by (auto simp: scales_loss_Nil split: if_splits)
  qed
  from d scales_loss_Cons [OF ne]
  have "l = Scalar (fst (summed ls) / real_of_int (ITER_SIZE cfg))
                   (snd (summed ls) /\<^sub>R real_of_int (ITER_SIZE cfg))"
    by auto
  with f ne b i show ?thesis by auto
qed

lemma sub_iterations_sum:
  assumes "for_each (\<lambda>s (i::int). sub_iteration cfg e s) st xs = Inr st'"
  shows "length (sub_losses cfg e st (length xs)) = length xs \<and>
         iter_loss st' = iter_loss st +
           sum_list (map fst (sub_losses cfg e st (length xs))) / real_of_int (ITER_SIZE cfg) \<and>
         grad st' = grad st +
           sum_list (map snd (sub_losses cfg e st (length xs))) /\<^sub>R real_of_int (ITER_SIZE cfg)"
  using assms
proof (induction xs arbitrary: st)
  case Nil
  then show ?case by simp
next
  case (Cons i xs)
  from Cons.prems obtain s2 where
    s: "sub_iteration cfg e st = Inr s2"
    and r: "for_each (\<lambda>s (i::int). sub_iteration cfg e s) s2 xs = Inr st'"
    by (auto simp: and_then_Inr)
  from s obtain b s1 where f: "fetch e st = Inr (b, s1)" and c: "compute cfg e b s1 = Inr s2"
    by (auto simp: sub_iteration_def and_then_Inr)
  from compute_divides [OF c] obtain ls where
    ls: "forward e (weights s1) b = Inr ls"
      "grad s2 = grad s1 + snd (summed ls) /\<^sub>R real_of_int (ITER_SIZE cfg)"
      "iter_loss s2 = iter_loss s1 + fst (summed ls) / real_of_int (ITER_SIZE cfg)"
    by blast
  from fetch_Inr [OF f] have fr: "grad s1 = grad st" "iter_loss s1 = iter_loss st" by simp_all
  from f ls(1) c have sl: "sub_losses cfg e st (Suc (length xs)) =
      summed ls # sub_losses cfg e s2 (length xs)" by simp
  note ih = Cons.IH [OF r]
  from ih sl have "length (sub_losses cfg e st (length (i # xs))) = length (i # xs)" by simp
  moreover from ih sl ls fr have "iter_loss st' = iter_loss st +
           sum_list (map fst (sub_losses cfg e st (length (i # xs)))) / real_of_int (ITER_SIZE cfg)"
    by (simp add: add_divide_distrib)
  moreover from ih sl ls fr have "grad st' = grad st +
           sum_list (map snd (sub_losses cfg e st (length (i # xs)))) /\<^sub>R real_of_int (ITER_SIZE cfg)"
    by (simp add: scaleR_right_distrib add.assoc)
  ultimately show ?case by blast
qed

text \<open>
  Claim C1. In an outer iteration with \<^verbatim>\<open>ITER_SIZE\<close> \<open>= N \<ge> 1\<close> that completes, every
  sub-iteration adds its summed-across-scales loss divided by \<open>N\<close> to the iteration loss and
  the gradient of that quotient to the gradient buffers; there are \<open>N\<close> sub-iterations; the
  gradient accumulated when the optimizer steps is the gradient of the sum of their summed
  losses divided by \<open>N\<close>, that is the gradient of their mean; and the iteration loss reported
  to the meter is the sum of their summed losses divided by \<open>N\<close>. (Real arithmetic.)
\<close>

theorem accumulation_mean:
  assumes "1 \<le> ITER_SIZE cfg"
    and "poly_lr_scheduler (optimizer st) (LR cfg) (i - 1) (LR_DECAY cfg) (ITER_MAX cfg)
           (POLY_POWER cfg) = Inr opt"
    and "train_iteration cfg e st i = Inr st'"
  shows "length (sub_losses cfg e (reset (st\<lparr>optimizer := opt\<rparr>)) (nat (ITER_SIZE cfg)))
           = nat (ITER_SIZE cfg) \<and>
         grad st' =
           sum_list (map snd (sub_losses cfg e (reset (st\<lparr>optimizer := opt\<rparr>))
                                (nat (ITER_SIZE cfg)))) /\<^sub>R real_of_int (ITER_SIZE cfg) \<and>
         loss_meter st' =
           (sum_list (map fst (sub_losses cfg e (reset (st\<lparr>optimizer := opt\<rparr>))
                                 (nat (ITER_SIZE cfg)))) / real_of_int (ITER_SIZE cfg))
           # loss_meter st \<and>
         (\<forall>b s1 s2. compute cfg e b s1 = Inr s2 \<longrightarrow>
            (\<exists>ls. forward e (weights s1) b = Inr ls \<and> ls \<noteq> [] \<and>
               grad s2 = grad s1 + snd (summed ls) /\<^sub>R real_of_int (ITER_SIZE cfg) \<and>
               iter_loss s2 = iter_loss s1 + fst (summed ls) / real_of_int (ITER_SIZE cfg)))"
proof -
  let ?s0 = "reset (st\<lparr>optimizer := opt\<rparr>)"
  from assms(2,3) obtain s2 s3 s4 s5 where
    acc: "accumulate cfg e ?s0 = Inr s2"
    and upd: "update e s2 = Inr s3"
    and tbd: "tensorboard cfg i s3 = Inr s4"
    and sav: "save_history cfg i s4 = Inr s5"
    and cur: "st' = save_current cfg i s5"
    by (auto simp: train_iteration_def and_then_Inr)
  have len: "length [1..ITER_SIZE cfg] = nat (ITER_SIZE cfg)" by simp
  have z: "grad ?s0 = 0" "iter_loss ?s0 = 0" "loss_meter ?s0 = loss_meter st"
    "data_times ?s0 = Some []"
    by (simp_all add: reset_def)
  note s = sub_iterations_sum [OF acc [unfolded accumulate_def], unfolded len]
  note a = accumulate_Inr [OF acc z(4)]
  note u = update_Inr [OF upd]
  note t = tensorboard_Inr [OF tbd]
  note h = save_history_Inr [OF sav]
  note c = save_current_eq [of cfg i s5]
  from s z a u t h c cur compute_divides [of cfg e] show ?thesis by simp
qed

text \<open>
  Witness for C1: the first outer iteration of the example run pulls batches 0 and 1, whose
  summed losses are 1 and 2 with gradient 3 each; the gradient handed to the optimizer step
  is (3 + 3) / 2 = 3 and the reported loss is (1 + 2) / 2 = 3/2.
\<close>

theorem accumulation_mean_witness:
  "sub_losses cfg0 env0
      (reset ((initial_state cfg0 env0 model_deeplab 0 ())\<lparr>optimizer := sched0\<rparr>)) 2
     = [(1, 3), (2, 3)] \<and>
   (\<exists>st1. train_iteration cfg0 env0 (initial_state cfg0 env0 model_deeplab 0 ()) 1 = Inr st1 \<and>
      grad st1 = 3 \<and> loss_meter st1 = [3 / 2])"
proof -
  let ?s0 = "initial_state cfg0 env0 model_deeplab 0 ()"
  have n: "1 \<le> ITER_SIZE cfg0" "nat (ITER_SIZE cfg0) = 2" "real_of_int (ITER_SIZE cfg0) = 2"
    by (simp_all add: cfg0_def)
  have sch: "poly_lr_scheduler (optimizer ?s0) (LR cfg0) (1 - 1) (LR_DECAY cfg0) (ITER_MAX cfg0)
           (POLY_POWER cfg0) = Inr sched0"
    by (simp add: poly_lr_scheduler_def skips_def new_lr_def float_pow_def set_lr_def
        initial_state_def SGD_groups_def cfg0_def sched0_def get_params_deeplab)
  have sl: "sub_losses cfg0 env0 (reset (?s0\<lparr>optimizer := sched0\<rparr>)) 2 = [(1, 3), (2, 3)]"
    by code_simp
  have "(case train_iteration cfg0 env0 ?s0 1 of Inl x \<Rightarrow> False | Inr st \<Rightarrow> True)"
    by code_simp
  then obtain st1 where t: "train_iteration cfg0 env0 ?s0 1 = Inr st1"
    by (cases "train_iteration cfg0 env0 ?s0 1") simp_all
  from accumulation_mean [OF n(1) sch t] n sl
  have "grad st1 = 3 \<and> loss_meter st1 = [3 / 2]"
    by (simp add: initial_state_def)
  with t sl show ?thesis by simp
qed

subsection \<open>Names of the checkpoint files\<close>

lemma of_char_digit: "d < 10 \<Longrightarrow> of_char (digit_char d) = 48 + d"
  by (simp add: digit_char_def)

lemma digit_char_inj: "a < 10 \<Longrightarrow> b < 10 \<Longrightarrow> digit_char a = digit_char b \<Longrightarrow> a = b"
  by (metis of_char_digit add_left_cancel)

lemma digit_char_range:
  "d < 10 \<Longrightarrow> (48::nat) \<le> of_char (digit_char d) \<and> (of_char (digit_char d) :: nat) \<le> 57"
  by (simp add: of_char_digit)

lemma str_nat_digits: "c \<in> set (str_nat n) \<Longrightarrow> (48::nat) \<le> of_char c \<and> (of_char c :: nat) \<le> 57"
proof (induction n rule: str_nat.induct)
  case (1 n)
  show ?case
  proof (cases "n < 10")
    case True
    with "1.prems" have "c = digit_char n" by (simp add: str_nat.simps [of n])
    with True show ?thesis by (simp add: digit_char_range)
  next
    case False
    with "1.prems" have "c \<in> set (str_nat (n div 10)) \<or> c = digit_char (n mod 10)"
      by (auto simp: str_nat.simps [of n])
    then show ?thesis
    proof
      assume "c \<in> set (str_nat (n div 10))"
      with "1.IH" False show ?thesis by simp
    next
      assume "c = digit_char (n mod 10)"
      then show ?thesis by (simp add: digit_char_range)
    qed
  qed
qed

lemma str_nat_not_Nil: "str_nat n \<noteq> []"
  by (subst str_nat.simps) simp

lemma str_nat_inj: "str_nat n = str_nat m \<Longrightarrow> n = m"
proof (induction n arbitrary: m rule: str_nat.induct)
  case (1 n)
  show ?case
  proof (cases "n < 10")
    case n: True
    show ?thesis
    proof (cases "m < 10")
      case True
      with n "1.prems" show ?thesis
        by (simp add: str_nat.simps [of n] str_nat.simps [of m] digit_char_inj)
    next
      case False
      with n "1.prems" have "[digit_char n] = str_nat (m div 10) @ [digit_char (m mod 10)]"
        by (simp add: str_nat.simps [of n] str_nat.simps [of m])
      then have "str_nat (m div 10) = []" by simp
      with str_nat_not_Nil show ?thesis by blast
    qed
  next
    case n: False
    show ?thesis
    proof (cases "m < 10")
      case True
      with n "1.prems" have "str_nat (n div 10) @ [digit_char (n mod 10)] = [digit_char m]"
        by (simp add: str_nat.simps [of n] str_nat.simps [of m])
      then have "str_nat (n div 10) = []" by simp
      with str_nat_not_Nil show ?thesis by blast
    next
      case False
      with n "1.prems" have
        "str_nat (n div 10) @ [digit_char (n mod 10)] = str_nat (m div 10) @ [digit_char (m mod 10)]"
        by (simp add: str_nat.simps [of n] str_nat.simps [of m])
      then have a: "str_nat (n div 10) = str_nat (m div 10)"
        and b: "digit_char (n mod 10) = digit_char (m mod 10)" by simp_all
      from "1.IH" [OF n a] have "n div 10 = m div 10" .
      moreover from b have "n mod 10 = m mod 10" by (simp add: digit_char_inj)
      ultimately show ?thesis by (metis div_mult_mod_eq)
    qed
  qed
qed

lemma minus_not_in_str_nat: "CHR ''-'' \<notin> set (str_nat n)"
proof
  assume "CHR ''-'' \<in> set (str_nat n)"
  from str_nat_digits [OF this] show False by simp
qed

lemma str_int_inj: "str_int i = str_int j \<Longrightarrow> i = j"
proof -
  assume a: "str_int i = str_int j"
  have neg: "\<And>a b. CHR ''-'' # str_nat a \<noteq> str_nat b"
    using minus_not_in_str_nat by (metis list.set_intros(1))
  show "i = j"
  proof (cases "i < 0")
    case i: True
    show ?thesis
    proof (cases "j < 0")
      case True
      with i a have "str_nat (nat (- i)) = str_nat (nat (- j))" by (simp add: str_int_def)
      from str_nat_inj [OF this] i True show ?thesis by simp
    next
      case False
      with i a neg show ?thesis by (simp add: str_int_def)
    qed
  next
    case i: False
    show ?thesis
    proof (cases "j < 0")
      case True
      with i a neg [of "nat (- j)" "nat i"] show ?thesis by (simp add: str_int_def)
    next
      case False
      with i a have "str_nat (nat i) = str_nat (nat j)" by (simp add: str_int_def)
      from str_nat_inj [OF this] i False show ?thesis by simp
    qed
  qed
qed

lemma str_int_chars:
  "c \<in> set (str_int i) \<Longrightarrow> c = CHR ''-'' \<or> ((48::nat) \<le> of_char c \<and> (of_char c :: nat) \<le> 57)"
  by (auto simp: str_int_def dest: str_nat_digits split: if_splits)

lemma str_int_not_word: "str_int i \<noteq> ''current'' \<and> str_int i \<noteq> ''final''"
proof -
  have "CHR ''c'' \<notin> set (str_int i)" "CHR ''f'' \<notin> set (str_int i)"
    using str_int_chars [of _ i] by fastforce+
  then show ?thesis by (metis list.set_intros(1))
qed

text \<open>The directory part that \<open>osp_join\<close> puts before a relative file name.\<close>

lemma osp_join_relative:
  "f \<noteq> [] \<Longrightarrow> hd f \<noteq> CHR ''/'' \<Longrightarrow>
     osp_join d f = (if d = [] \<or> last d = CHR ''/'' then d else d @ ''/'') @ f"
  by (simp add: osp_join_def)

lemma checkpoint_path_eq:
  "checkpoint_path cfg i =
     (if SAVE_DIR cfg = [] \<or> last (SAVE_DIR cfg) = CHR ''/'' then SAVE_DIR cfg
      else SAVE_DIR cfg @ ''/'') @ ''checkpoint_'' @ str_int i @ ''.pth''"
  unfolding checkpoint_path_def by (subst osp_join_relative) simp_all

lemma current_path_eq:
  "current_path cfg =
     (if SAVE_DIR cfg = [] \<or> last (SAVE_DIR cfg) = CHR ''/'' then SAVE_DIR cfg
      else SAVE_DIR cfg @ ''/'') @ ''checkpoint_'' @ ''current'' @ ''.pth''"
  unfolding current_path_def by (subst osp_join_relative) simp_all

lemma final_path_eq:
  "final_path cfg =
     (if SAVE_DIR cfg = [] \<or> last (SAVE_DIR cfg) = CHR ''/'' then SAVE_DIR cfg
      else SAVE_DIR cfg @ ''/'') @ ''checkpoint_'' @ ''final'' @ ''.pth''"
  unfolding final_path_def by (subst osp_join_relative) simp_all

lemma checkpoint_path_inj: "checkpoint_path cfg i = checkpoint_path cfg j \<Longrightarrow> i = j"
  by (simp add: checkpoint_path_eq str_int_inj)

lemma checkpoint_path_fresh:
  "checkpoint_path cfg i \<noteq> current_path cfg \<and> checkpoint_path cfg i \<noteq> final_path cfg \<and>
   checkpoint_path cfg i \<noteq> ''logs.csv''"
proof -
  have "last (checkpoint_path cfg i) = CHR ''h''"
    unfolding checkpoint_path_eq by simp
  then have "checkpoint_path cfg i \<noteq> ''logs.csv''" by auto
  moreover have "checkpoint_path cfg i \<noteq> current_path cfg"
    using str_int_not_word [of i] unfolding checkpoint_path_eq current_path_eq by simp
  moreover have "checkpoint_path cfg i \<noteq> final_path cfg"
    using str_int_not_word [of i] unfolding checkpoint_path_eq final_path_eq by simp
  ultimately show ?thesis by simp
qed

lemma fixed_paths_distinct:
  "current_path cfg \<noteq> final_path cfg \<and> current_path cfg \<noteq> ''logs.csv'' \<and>
   final_path cfg \<noteq> ''logs.csv''"
proof -
  have "last (current_path cfg) = CHR ''h''" "last (final_path cfg) = CHR ''h''"
    unfolding current_path_eq final_path_eq by simp_all
  then have "current_path cfg \<noteq> ''logs.csv''" "final_path cfg \<noteq> ''logs.csv''" by auto
  moreover have "current_path cfg \<noteq> final_path cfg"
    unfolding current_path_eq final_path_eq by simp
  ultimately show ?thesis by simp
qed

lemma cadence_Nil: "cadence cfg [] = []"
  by (simp add: cadence_def)

lemma cadence_Cons:
  "cadence cfg (i # its) =
     (if i mod ITER_SAVE cfg = 0 then [checkpoint_path cfg i] else [])
     @ (if i mod 100 = 0 then [current_path cfg] else []) @ cadence cfg its"
  by (simp add: cadence_def)

lemma cadence_history:
  "filter (\<lambda>p. p \<notin> {current_path cfg, final_path cfg, ''logs.csv''}) (cadence cfg its) =
     map (checkpoint_path cfg) (filter (\<lambda>i. i mod ITER_SAVE cfg = 0) its)"
proof (induction its)
  case Nil
  show ?case by (simp add: cadence_Nil)
next
  case (Cons i its)
  have a: "checkpoint_path cfg i \<noteq> current_path cfg"
    "checkpoint_path cfg i \<noteq> final_path cfg" "checkpoint_path cfg i \<noteq> ''logs.csv''"
    using checkpoint_path_fresh [of cfg i] by simp_all
  show ?case using Cons.IH by (simp add: cadence_Cons a)
qed

lemma cadence_current:
  "filter (\<lambda>p. p = current_path cfg) (cadence cfg its) =
     map (\<lambda>i. current_path cfg) (filter (\<lambda>i. i mod 100 = 0) its)"
proof (induction its)
  case Nil
  show ?case by (simp add: cadence_Nil)
next
  case (Cons i its)
  have a: "checkpoint_path cfg i \<noteq> current_path cfg"
    using checkpoint_path_fresh [of cfg i] by simp
  show ?case by (simp add: cadence_Cons a Cons.IH)
qed

lemma cadence_final: "final_path cfg \<notin> set (cadence cfg its)"
proof (induction its)
  case Nil
  show ?case by (simp add: cadence_Nil)
next
  case (Cons i its)
  have a: "final_path cfg \<noteq> checkpoint_path cfg i"
    using checkpoint_path_fresh [of cfg i] by metis
  have b: "final_path cfg \<noteq> current_path cfg"
    using fixed_paths_distinct [of cfg] by metis
  show ?case using Cons.IH by (simp add: cadence_Cons a b)
qed

lemma filter_upto_empty:
  "(\<And>x. a \<le> x \<Longrightarrow> x \<le> b \<Longrightarrow> \<not> P x) \<Longrightarrow> filter P [a..b] = []"
  by (auto simp: filter_empty_conv)

lemma no_multiple_between:
  fixes x :: int
  assumes "1000 * k < x" and "x < 1000 * (k + 1)"
  shows "x mod 1000 \<noteq> 0"
proof
  assume "x mod 1000 = 0"
  then have "1000 dvd x" by (simp only: mod_eq_0_iff_dvd)
  then obtain q where q: "x = 1000 * q" by (rule dvdE)
  with assms have "k < q" "q < k + 1" by simp_all
  then show False by linarith
qed

lemma multiples_example: "filter (\<lambda>i. i mod 1000 = 0) [1..2500] = [1000, 2000 :: int]"
proof -
  have s1: "[1..2500::int] = [1..1000 - 1] @ 1000 # [1000 + 1..2500]"
    by (rule upto_split3) simp_all
  have s2: "[1000 + 1..2500::int] = [1000 + 1..2000 - 1] @ 2000 # [2000 + 1..2500]"
    by (rule upto_split3) simp_all
  have f1: "filter (\<lambda>i. i mod 1000 = 0) [1..1000 - 1 :: int] = []"
  proof (rule filter_upto_empty)
    fix x :: int assume "1 \<le> x" "x \<le> 1000 - 1"
    then show "x mod 1000 \<noteq> 0" using no_multiple_between [of 0 x] by simp
  qed
  have f2: "filter (\<lambda>i. i mod 1000 = 0) [1000 + 1..2000 - 1 :: int] = []"
  proof (rule filter_upto_empty)
    fix x :: int assume "1000 + 1 \<le> x" "x \<le> 2000 - 1"
    then show "x mod 1000 \<noteq> 0" using no_multiple_between [of 1 x] by simp
  qed
  have f3: "filter (\<lambda>i. i mod 1000 = 0) [2000 + 1..2500 :: int] = []"
  proof (rule filter_upto_empty)
    fix x :: int assume "2000 + 1 \<le> x" "x \<le> 2500"
    then show "x mod 1000 \<noteq> 0" using no_multiple_between [of 2 x] by simp
  qed
  have m: "(1000::int) mod 1000 = 0" "(2000::int) mod 1000 = 0" by simp_all
  show ?thesis
    by (simp only: s1 s2 filter_append filter.simps f1 f2 f3 append_Nil m if_True refl)
qed

subsection \<open>Completion of a run\<close>

text \<open>With reliable collaborators and a valid configuration the run returns.\<close>

lemma pull_succeeds:
  assumes "reliable e"
  shows "\<exists>b s1. pull e st = Inr (b, s1)"
proof -
  from assms obtain b r where "loader e (epoch st) = Inr b # r"
    unfolding reliable_def by blast
  then show ?thesis
    by (auto simp: pull_def split: list.splits sum.splits)
qed

lemma fetch_succeeds:
  assumes "reliable e" and "data_times st = Some ds"
  shows "\<exists>b s1. fetch e st = Inr (b, s1)"
proof -
  let ?s0 = "st\<lparr>start := Some (clock e (now st)), now := Suc (now st)\<rparr>"
  from pull_succeeds [OF assms(1)] obtain b s1 where p: "pull e ?s0 = Inr (b, s1)" by blast
  from pull_Inr [OF p] assms(2) have "data_times s1 = Some ds" by simp
  with p show ?thesis by (simp add: fetch_def Let_def)
qed

lemma compute_succeeds:
  assumes "reliable e"
  shows "\<exists>s2. compute cfg e b s1 = Inr s2"
proof -
  let ?s = "s1\<lparr>start := Some (clock e (now s1)), now := Suc (now s1)\<rparr>"
  from assms obtain ls where ls: "forward e (weights ?s) b = Inr ls" "ls \<noteq> []"
    unfolding reliable_def by blast
  from scales_loss_Cons [OF ls(2)] ls(1) show ?thesis
    by (simp add: compute_def Let_def)
qed

lemma sub_iteration_succeeds:
  assumes "reliable e" and "data_times st = Some ds"
  shows "\<exists>s2. sub_iteration cfg e st = Inr s2"
proof -
  from fetch_succeeds [OF assms] obtain b s1 where f: "fetch e st = Inr (b, s1)" by blast
  from compute_succeeds [OF assms(1)] obtain s2 where "compute cfg e b s1 = Inr s2" by blast
  with f show ?thesis by (simp add: sub_iteration_def)
qed

lemma sub_iterations_succeed:
  assumes "reliable e"
  shows "data_times st = Some ds \<Longrightarrow>
         \<exists>s2. for_each (\<lambda>s (i::int). sub_iteration cfg e s) st xs = Inr s2"
proof (induction xs arbitrary: st ds)
  case Nil
  show ?case by simp
next
  case (Cons i xs)
  from sub_iteration_succeeds [OF assms Cons.prems] obtain s1 where
    s1: "sub_iteration cfg e st = Inr s1" by blast
  from sub_iteration_Inr [OF s1] obtain ds' where "data_times s1 = Some ds'" by auto
  from Cons.IH [OF this] s1 show ?case by simp
qed

lemma update_succeeds:
  assumes "reliable e" and "compute_times st = Some cs" and "start st = Some t0"
  shows "\<exists>s3. update e st = Inr s3"
proof -
  from assms(1) obtain w m where
    "step e (optimizer st) (grad st) (weights st) = Inr (w, m)"
    unfolding reliable_def by (metis state.select_convs(1))
  with assms(2,3) show ?thesis by (simp add: update_def Let_def)
qed

lemma scheduler_succeeds:
  assumes "lr_decay_iter \<noteq> 0" and "3 \<le> length (param_groups opt)"
    and "0 \<le> iter" and "iter < max_iter"
  shows "\<exists>opt'. poly_lr_scheduler opt init_lr iter lr_decay_iter max_iter pw = Inr opt'"
proof (cases "skips iter lr_decay_iter max_iter")
  case True
  with assms(1) show ?thesis by (simp add: poly_lr_scheduler_skips)
next
  case False
  from assms(3,4) have "0 < 1 - real_of_int iter / real_of_int max_iter" by simp
  then have "float_pow (1 - real_of_int iter / real_of_int max_iter) pw =
      Inr ((1 - real_of_int iter / real_of_int max_iter) powr pw)"
    by (simp add: float_pow_def)
  with assms(3,4) have "new_lr init_lr iter max_iter pw =
      Inr (init_lr * (1 - real_of_int iter / real_of_int max_iter) powr pw)"
    by (simp add: new_lr_def)
  from poly_lr_scheduler_success [OF assms(1) False this assms(2)] show ?thesis by blast
qed

lemma train_iteration_succeeds:
  assumes "reliable e" and "valid_config cfg" and "3 \<le> length (param_groups (optimizer st))"
    and "1 \<le> i" and "i \<le> ITER_MAX cfg"
  shows "\<exists>st'. train_iteration cfg e st i = Inr st'"
proof -
  from assms(2) have v: "1 \<le> ITER_SIZE cfg" "ITER_TB cfg \<noteq> 0" "ITER_SAVE cfg \<noteq> 0"
    "LR_DECAY cfg \<noteq> 0" by (simp_all add: valid_config_def)
  from assms(4,5) have "0 \<le> i - 1" "i - 1 < ITER_MAX cfg" by simp_all
  from scheduler_succeeds [OF v(4) assms(3) this] obtain opt where
    sch: "poly_lr_scheduler (optimizer st) (LR cfg) (i - 1) (LR_DECAY cfg) (ITER_MAX cfg)
            (POLY_POWER cfg) = Inr opt" by blast
  let ?s0 = "reset (st\<lparr>optimizer := opt\<rparr>)"
  have dt: "data_times ?s0 = Some []" and ct: "compute_times ?s0 = Some []"
    by (simp_all add: reset_def)
  from sub_iterations_succeed [OF assms(1) dt] obtain s2 where
    acc: "accumulate cfg e ?s0 = Inr s2" unfolding accumulate_def by blast
  from accumulate_Inr [OF acc dt] v(1) ct obtain t0 where
    "compute_times s2 = Some []" "start s2 = Some t0" by auto
  from update_succeeds [OF assms(1) this] obtain s3 where upd: "update e s2 = Inr s3" by blast
  from v(2) obtain s4 where tbd: "tensorboard cfg i s3 = Inr s4"
    by (cases "i mod ITER_TB cfg = 0") (simp_all add: tensorboard_def)
  from v(3) obtain s5 where sav: "save_history cfg i s4 = Inr s5"
    by (cases "i mod ITER_SAVE cfg = 0") (simp_all add: save_history_def)
  from sch acc upd tbd sav show ?thesis by (simp add: train_iteration_def)
qed

lemma main_loop_succeeds:
  assumes "reliable e" and "valid_config cfg"
  shows "3 \<le> length (param_groups (optimizer st)) \<Longrightarrow>
         (\<And>i. i \<in> set its \<Longrightarrow> 1 \<le> i \<and> i \<le> ITER_MAX cfg) \<Longrightarrow>
         \<exists>st'. main_loop cfg e st its = Inr st'"
proof (induction its arbitrary: st)
  case Nil
  show ?case by (simp add: main_loop_def)
next
  case (Cons i its)
  from Cons.prems(2) [of i] have "1 \<le> i" "i \<le> ITER_MAX cfg" by simp_all
  from train_iteration_succeeds [OF assms Cons.prems(1) this] obtain s1 where
    s1: "train_iteration cfg e st i = Inr s1" by blast
  from train_iteration_Inr [OF s1] have
    "map weight_decay (param_groups (optimizer s1)) = map weight_decay (param_groups (optimizer st))"
    by simp
  then have "length (param_groups (optimizer s1)) = length (param_groups (optimizer st))"
    by (rule map_eq_imp_length_eq)
  with Cons.prems(1) have "3 \<le> length (param_groups (optimizer s1))" by simp
  from Cons.IH [OF this] Cons.prems(2) obtain st' where "main_loop cfg e s1 its = Inr st'"
    by auto
  with s1 show ?case by (simp add: main_loop_def)
qed

lemma main_succeeds:
  assumes "reliable e" and "valid_config cfg"
  shows "\<exists>st'. main cfg e model w0 m0 = Inr st'"
proof -
  let ?s0 = "initial_state cfg e model w0 m0"
  have "3 \<le> length (param_groups (optimizer ?s0))"
    by (simp add: initial_state_def SGD_groups_def)
  from main_loop_succeeds [OF assms this, of "[1..ITER_MAX cfg]"] obtain s1 where
    l: "main_loop cfg e ?s0 [1..ITER_MAX cfg] = Inr s1" by auto
  from assms(2) have "[1..ITER_MAX cfg] \<noteq> []" by (simp add: valid_config_def)
  with main_loop_Inr [OF l] obtain ds c where
    "data_times s1 = Some ds" "compute_times s1 = Some [c]" by auto
  then obtain st' where "finish cfg s1 = Inr st'" by (simp add: finish_def)
  with l show ?thesis by (simp add: main_def)
qed

subsection \<open>Checkpoint cadence\<close>

text \<open>
  Claim C5. In every run that completes its \<^verbatim>\<open>ITER_MAX\<close> outer iterations, the files are
  written in this order: at each iteration that is a multiple of \<^verbatim>\<open>ITER_SAVE\<close> the history
  file named by the iteration, at each iteration that is a multiple of 100 the file
  \<^verbatim>\<open>checkpoint_current.pth\<close>, and after the loop \<^verbatim>\<open>logs.csv\<close> and
  \<^verbatim>\<open>checkpoint_final.pth\<close>. Hence the history files written are exactly those of the multiples
  of \<^verbatim>\<open>ITER_SAVE\<close> in 1..\<^verbatim>\<open>ITER_MAX\<close>, their paths are pairwise distinct and differ from the
  three fixed paths (no history file is overwritten), the current file is written once per
  multiple of 100, the final file is written exactly once and last, and with
  \<^verbatim>\<open>ITER_SAVE = 1000\<close> and \<^verbatim>\<open>ITER_MAX = 2500\<close> the history files are those of 1000 and 2000.
\<close>

theorem checkpoint_cadence:
  assumes "main cfg e model w0 m0 = Inr st'"
  shows "map path_of (files st') = cadence cfg [1..ITER_MAX cfg] @ [''logs.csv'', final_path cfg] \<and>
         filter (\<lambda>p. p \<notin> {current_path cfg, final_path cfg, ''logs.csv''}) (map path_of (files st')) =
           map (checkpoint_path cfg) (filter (\<lambda>i. i mod ITER_SAVE cfg = 0) [1..ITER_MAX cfg]) \<and>
         distinct (map (checkpoint_path cfg) (filter (\<lambda>i. i mod ITER_SAVE cfg = 0) [1..ITER_MAX cfg])) \<and>
         filter (\<lambda>p. p = current_path cfg) (map path_of (files st')) =
           map (\<lambda>i. current_path cfg) (filter (\<lambda>i. i mod 100 = 0) [1..ITER_MAX cfg]) \<and>
         filter (\<lambda>p. p = final_path cfg) (map path_of (files st')) = [final_path cfg] \<and>
         last (map path_of (files st')) = final_path cfg \<and>
         (ITER_SAVE cfg = 1000 \<and> ITER_MAX cfg = 2500 \<longrightarrow>
            filter (\<lambda>p. p \<notin> {current_path cfg, final_path cfg, ''logs.csv''}) (map path_of (files st')) =
              [checkpoint_path cfg 1000, checkpoint_path cfg 2000])"
proof -
  let ?hist = "\<lambda>p. p \<notin> {current_path cfg, final_path cfg, ''logs.csv''}"
  from main_Inr [OF assms] have
    p: "map path_of (files st') = cadence cfg [1..ITER_MAX cfg] @ [''logs.csv'', final_path cfg]"
    by simp
  have t: "filter ?hist [''logs.csv'', final_path cfg] = []" by simp
  have h: "filter ?hist (map path_of (files st')) =
           map (checkpoint_path cfg) (filter (\<lambda>i. i mod ITER_SAVE cfg = 0) [1..ITER_MAX cfg])"
    by (simp only: p filter_append cadence_history t append_Nil2)
  have "inj_on (checkpoint_path cfg) A" for A
    by (rule inj_onI) (rule checkpoint_path_inj)
  then have d: "distinct (map (checkpoint_path cfg)
      (filter (\<lambda>i. i mod ITER_SAVE cfg = 0) [1..ITER_MAX cfg]))"
    by (simp add: distinct_map)
  have tc: "filter (\<lambda>p. p = current_path cfg) [''logs.csv'', final_path cfg] = []"
    using fixed_paths_distinct [of cfg] by auto
  have c: "filter (\<lambda>p. p = current_path cfg) (map path_of (files st')) =
           map (\<lambda>i. current_path cfg) (filter (\<lambda>i. i mod 100 = 0) [1..ITER_MAX cfg])"
    by (simp only: p filter_append cadence_current tc append_Nil2)
  have tf: "filter (\<lambda>p. p = final_path cfg) [''logs.csv'', final_path cfg] = [final_path cfg]"
    using fixed_paths_distinct [of cfg] by auto
  have cf: "filter (\<lambda>p. p = final_path cfg) (cadence cfg [1..ITER_MAX cfg]) = []"
    using cadence_final [of cfg "[1..ITER_MAX cfg]"] by (auto simp: filter_empty_conv)
  have f: "filter (\<lambda>p. p = final_path cfg) (map path_of (files st')) = [final_path cfg]"
    by (simp only: p filter_append tf cf append_Nil)
  have l: "last (map path_of (files st')) = final_path cfg"
    by (simp only: p) simp
  have x: "ITER_SAVE cfg = 1000 \<and> ITER_MAX cfg = 2500 \<longrightarrow>
            filter ?hist (map path_of (files st')) =
              [checkpoint_path cfg 1000, checkpoint_path cfg 2000]"
  proof
    assume a: "ITER_SAVE cfg = 1000 \<and> ITER_MAX cfg = 2500"
    then have a1: "ITER_SAVE cfg = 1000" and a2: "ITER_MAX cfg = 2500" by blast+
    have "filter (\<lambda>i. i mod ITER_SAVE cfg = 0) [1..ITER_MAX cfg] = [1000, 2000]"
      by (simp only: a1 a2 multiples_example)
    then show "filter ?hist (map path_of (files st')) =
              [checkpoint_path cfg 1000, checkpoint_path cfg 2000]"
      by (simp only: h list.map)
  qed
  from p h d c f l x show ?thesis by blast
qed

lemma reliable_env0: "reliable env0"
  by (simp add: reliable_def env0_def)

text \<open>
  Witness for C5: with the example collaborators the run of 2500 iterations with a history
  checkpoint every 1000 completes and writes the history files of 1000 and 2000 and, last,
  the final file; the run of 2 iterations with a history checkpoint at every iteration
  writes the history files of 1 and 2, the CSV file and the final file.
\<close>

theorem checkpoint_cadence_witness:
  "(\<exists>st. main cfg_long env0 model_deeplab 0 () = Inr st \<and>
      filter (\<lambda>p. p \<notin> {current_path cfg_long, final_path cfg_long, ''logs.csv''})
        (map path_of (files st)) = [''out/checkpoint_1000.pth'', ''out/checkpoint_2000.pth''] \<and>
      last (map path_of (files st)) = ''out/checkpoint_final.pth'') \<and>
   (\<exists>st. main cfg0 env0 model_deeplab 0 () = Inr st \<and>
      map path_of (files st) =
        [''out/checkpoint_1.pth'', ''out/checkpoint_2.pth'', ''logs.csv'',
         ''out/checkpoint_final.pth''])"
proof -
  have v: "valid_config cfg_long" "valid_config cfg0"
    by (simp_all add: valid_config_def cfg_long_def cfg0_def)
  from main_succeeds [OF reliable_env0 v(1)] obtain st where
    m: "main cfg_long env0 model_deeplab 0 () = Inr st" by blast
  from main_succeeds [OF reliable_env0 v(2)] obtain st0 where
    m0: "main cfg0 env0 model_deeplab 0 () = Inr st0" by blast
  have c: "ITER_SAVE cfg_long = 1000 \<and> ITER_MAX cfg_long = 2500"
    by (simp add: cfg_long_def)
  have pc: "checkpoint_path cfg_long 1000 = ''out/checkpoint_1000.pth''"
    "checkpoint_path cfg_long 2000 = ''out/checkpoint_2000.pth''"
    by code_simp+
  have pf: "final_path cfg_long = ''out/checkpoint_final.pth''"
    "final_path cfg0 = ''out/checkpoint_final.pth''"
    by code_simp+
  have r: "[1..ITER_MAX cfg0] = [1, 2]" by (simp add: cfg0_def upto_rec1)
  have k: "cadence cfg0 [1, 2] = [''out/checkpoint_1.pth'', ''out/checkpoint_2.pth'']"
    by code_simp
  note t = checkpoint_cadence [OF m, THEN conjunct2, THEN conjunct2, THEN conjunct2,
      THEN conjunct2, THEN conjunct2]
  note t0 = checkpoint_cadence [OF m0, THEN conjunct1]
  from t [THEN conjunct2] c
  have "filter (\<lambda>p. p \<notin> {current_path cfg_long, final_path cfg_long, ''logs.csv''})
        (map path_of (files st)) = [checkpoint_path cfg_long 1000, checkpoint_path cfg_long 2000]"
    by (rule mp)
  then have h: "filter (\<lambda>p. p \<notin> {current_path cfg_long, final_path cfg_long, ''logs.csv''})
        (map path_of (files st)) = [''out/checkpoint_1000.pth'', ''out/checkpoint_2000.pth'']"
    by (simp only: pc)
  from t [THEN conjunct1] have l: "last (map path_of (files st)) = ''out/checkpoint_final.pth''"
    by (simp only: pf)
  from t0 have s: "map path_of (files st0) =
        [''out/checkpoint_1.pth'', ''out/checkpoint_2.pth'', ''logs.csv'',
         ''out/checkpoint_final.pth'']"
    by (simp only: r k pf append.simps)
  have A: "\<exists>st. main cfg_long env0 model_deeplab 0 () = Inr st \<and>
      filter (\<lambda>p. p \<notin> {current_path cfg_long, final_path cfg_long, ''logs.csv''})
        (map path_of (files st)) = [''out/checkpoint_1000.pth'', ''out/checkpoint_2000.pth''] \<and>
      last (map path_of (files st)) = ''out/checkpoint_final.pth''"
    by (rule exI [of _ st]) (intro conjI m h l)
  have B: "\<exists>st. main cfg0 env0 model_deeplab 0 () = Inr st \<and>
      map path_of (files st) =
        [''out/checkpoint_1.pth'', ''out/checkpoint_2.pth'', ''logs.csv'',
         ''out/checkpoint_final.pth'']"
    by (rule exI [of _ st0]) (intro conjI m0 s)
  from A B show ?thesis by (rule conjI)
qed

end
